theory Spec2Isabelle
  imports Complex_Main "HOL-Library.Product_Lexorder"
begin

section \<open>Data model\<close>

text \<open>
  The signal builder works on pandas data frames of float64 columns. A floating-point
  column is modelled as a list of exact reals; a column that can hold the missing value
  NaN is a list of \<open>real option\<close>, with \<open>None\<close> for NaN. The raw price columns never hold
  NaN, because \<open>fetch_stooq_csv\<close> ends with \<open>dropna()\<close>. Rounding error of the
  float64 arithmetic is not modelled.
\<close>

datatype error = IndexError | KeyError | ZeroDivisionError | FetchError

text \<open>
  One row of a price frame. \<open>date\<close> is the day number of the calendar date, counted
  from 1970-01-01 (a Thursday), so that day 1 is a Friday.
\<close>

record bar =
  date :: int
  open_price :: real
  high :: real
  low :: real
  close :: real
  volume :: real

text \<open>
  A frame is its rows plus the fact whether the CSV had a volume column; without one the
  \<open>volume\<close> field of the rows is never read.
\<close>

record frame =
  rows :: "bar list"
  has_volume :: bool

section \<open>Configuration\<close>

definition UPTREND_RSI_MIN :: real where "UPTREND_RSI_MIN = 50"
definition DOWNTREND_RSI_MAX :: real where "DOWNTREND_RSI_MAX = 50"
definition MR_RSI2_MAX :: real where "MR_RSI2_MAX = 10"
definition MR_RSI2_MIN :: real where "MR_RSI2_MIN = 90"
definition MR_TREND_MA :: nat where "MR_TREND_MA = 200"
definition LT_SMA_WEEKS :: nat where "LT_SMA_WEEKS = 40"
definition LT_RSI_MIN :: real where "LT_RSI_MIN = 55"
definition LT_MIN_WEEKS :: nat where "LT_MIN_WEEKS = 60"
definition RISK_MULT :: real where "RISK_MULT = 1.0"
definition REWARD_MULT :: real where "REWARD_MULT = 1.8"
definition LT_STOP_ATR_MULT :: real where "LT_STOP_ATR_MULT = 2.0"
definition LT_TARGET_ATR_MULT :: real where "LT_TARGET_ATR_MULT = 4.0"
definition MIN_PRICE :: real where "MIN_PRICE = 5.0"
definition MIN_DOLLAR_VOL :: real where "MIN_DOLLAR_VOL = 10000000"
definition MAX_SHORT_IDEAS :: nat where "MAX_SHORT_IDEAS = 12"
definition MAX_LONG_IDEAS :: nat where "MAX_LONG_IDEAS = 8"

section \<open>Indicator library\<close>

text \<open>
  \<open>s.rolling(n).mean()\<close>: the value at a position is the mean of the last \<open>n\<close> values up
  to it; it is missing while fewer than \<open>n\<close> values are there, and when one of them is
  missing. A window of 0 yields missing values only.
\<close>

definition window_mean :: "nat \<Rightarrow> real option list \<Rightarrow> real option" where
  "window_mean n ys =
     (if n = 0 \<or> length ys < n then None
      else case those (drop (length ys - n) ys) of
             None \<Rightarrow> None
           | Some w \<Rightarrow> Some (sum_list w / real n))"

definition rolling_mean :: "nat \<Rightarrow> real option list \<Rightarrow> real option list" where
  "rolling_mean n xs = map (\<lambda>i. window_mean n (take (Suc i) xs)) [0..<length xs]"

definition sma :: "real list \<Rightarrow> nat \<Rightarrow> real option list" where
  "sma s n = rolling_mean n (map Some s)"

text \<open>
  \<open>s.ewm(alpha=a, adjust=False).mean()\<close> on a series without missing values:
  \<open>y\<^sub>0 = x\<^sub>0\<close> and \<open>y\<^sub>t = (1 - a) y\<^sub>t\<^sub>-\<^sub>1 + a x\<^sub>t\<close>.
\<close>

fun ewm_from :: "real \<Rightarrow> real \<Rightarrow> real list \<Rightarrow> real list" where
  "ewm_from a y [] = []"
| "ewm_from a y (x # xs) = ((1 - a) * y + a * x) # ewm_from a ((1 - a) * y + a * x) xs"

fun ewm_mean :: "real \<Rightarrow> real list \<Rightarrow> real list" where
  "ewm_mean a [] = []"
| "ewm_mean a (x # xs) = x # ewm_from a x xs"

text \<open>\<open>ema\<close> is called with the spans 5, 10, 20, 30 and 50 only; \<open>span=n\<close> means \<open>a = 2 / (n + 1)\<close>.\<close>

definition ema :: "real list \<Rightarrow> nat \<Rightarrow> real list" where
  "ema s n = ewm_mean (2 / (real n + 1)) s"

text \<open>\<open>series.diff()\<close>: missing at the first position.\<close>

definition diff :: "real list \<Rightarrow> real option list" where
  "diff s = (case s of [] \<Rightarrow> [] | x # xs \<Rightarrow> None # map (\<lambda>(c, p). Some (c - p)) (zip xs s))"

text \<open>\<open>np.where(d > 0, d, 0.0)\<close> and \<open>np.where(d < 0, -d, 0.0)\<close>: a comparison with NaN is false.\<close>

definition gains :: "real list \<Rightarrow> real list" where
  "gains s = map (\<lambda>d. case d of None \<Rightarrow> 0 | Some x \<Rightarrow> if x > 0 then x else 0) (diff s)"

definition losses :: "real list \<Rightarrow> real list" where
  "losses s = map (\<lambda>d. case d of None \<Rightarrow> 0 | Some x \<Rightarrow> if x < 0 then - x else 0) (diff s)"

text \<open>The smoothed average gain \<open>ru\<close>, and the smoothed average loss before \<open>replace(0, nan)\<close>.\<close>

definition avg_gain :: "real list \<Rightarrow> nat \<Rightarrow> real list" where
  "avg_gain s n = ewm_mean (1 / real n) (gains s)"

definition avg_loss :: "real list \<Rightarrow> nat \<Rightarrow> real list" where
  "avg_loss s n = ewm_mean (1 / real n) (losses s)"

text \<open>
  \<open>rsi\<close>: Python evaluates \<open>1/n\<close> first, which raises for \<open>n = 0\<close>. A smoothed loss of
  exactly 0 is replaced by NaN, and the NaN goes through the division and the final formula.
  Over the reals a non-zero loss gives a value strictly below 100. In float64 a very small
  loss can make \<open>100 / (1 + rs)\<close> round to 0, the value then being exactly 100.0, and a loss
  that underflows to 0 is replaced by NaN like an exact 0; so only the closed range
  [0, 100] is stated of \<open>rsi\<close> below.
\<close>

definition rsi_value :: "real \<Rightarrow> real \<Rightarrow> real option" where
  "rsi_value ru rd0 =
     (let rd = (if rd0 = 0 then None else Some rd0);
          rs = map_option (\<lambda>d. ru / d) rd
      in map_option (\<lambda>r. 100 - 100 / (1 + r)) rs)"

definition rsi :: "real list \<Rightarrow> nat \<Rightarrow> error + real option list" where
  "rsi series n =
     (if n = 0 then Inl ZeroDivisionError
      else Inr (map (\<lambda>(ru, rd0). rsi_value ru rd0) (zip (avg_gain series n) (avg_loss series n))))"

text \<open>
  \<open>atr\<close>: the row-wise maximum skips NaN, so the first bar, which has no previous close,
  has the true range \<open>high - low\<close>.
\<close>

definition true_range :: "bar list \<Rightarrow> real list" where
  "true_range df =
     (case df of [] \<Rightarrow> []
      | b # bs \<Rightarrow> (high b - low b) #
          map (\<lambda>(c, p). max (high c - low c) (max \<bar>high c - close p\<bar> \<bar>low c - close p\<bar>)) (zip bs df))"

definition atr :: "bar list \<Rightarrow> nat \<Rightarrow> real option list" where
  "atr df n = rolling_mean n (map Some (true_range df))"

text \<open>
  \<open>float(f"{x:.2f}")\<close>: the nearest value with two decimals, a tie going to the even
  last digit.
\<close>

definition round_half_even :: "real \<Rightarrow> int" where
  "round_half_even x =
     (let f = \<lfloor>x\<rfloor>; r = x - of_int f
      in if r < 1 / 2 then f else if 1 / 2 < r then f + 1 else if even f then f else f + 1)"

definition round2 :: "real \<Rightarrow> real" where
  "round2 x = of_int (round_half_even (x * 100)) / 100"

definition round3 :: "real \<Rightarrow> real" where
  "round3 x = of_int (round_half_even (x * 1000)) / 1000"

section \<open>Liquidity gate\<close>

text \<open>\<open>df.iloc[-1]\<close> raises IndexError on a frame without rows.\<close>

definition liquidity_ok :: "frame \<Rightarrow> error + bool" where
  "liquidity_ok df =
     (if rows df = [] then Inl IndexError
      else if close (last (rows df)) < MIN_PRICE then Inr False
      else if \<not> has_volume df then Inr True
      else case last (rolling_mean 20 (map (\<lambda>b. Some (close b * volume b)) (rows df))) of
             None \<Rightarrow> Inr False
           | Some dv20 \<Rightarrow> Inr (dv20 \<ge> MIN_DOLLAR_VOL))"

section \<open>Market regime\<close>

text \<open>
  A float64 quotient: dividing by zero gives an infinity or NaN instead of raising.
\<close>

datatype quotient = Finite real | PosInf | NegInf | NaN

definition float_div :: "real \<Rightarrow> real \<Rightarrow> quotient" where
  "float_div x y =
     (if y \<noteq> 0 then Finite (x / y) else if x > 0 then PosInf else if x < 0 then NegInf else NaN)"

text \<open>\<open>q - 1.0 >= 0\<close> for a quotient \<open>q\<close>.\<close>

fun roc_nonneg :: "quotient \<Rightarrow> bool" where
  "roc_nonneg (Finite q) = (q - 1 \<ge> 0)"
| "roc_nonneg PosInf = True"
| "roc_nonneg NegInf = False"
| "roc_nonneg NaN = False"

text \<open>\<open>x > y\<close> and \<open>x >= y\<close> where \<open>y\<close> or \<open>x\<close> may be NaN: false then.\<close>

fun gt_nan :: "real \<Rightarrow> real option \<Rightarrow> bool" where
  "gt_nan x None = False"
| "gt_nan x (Some y) = (x > y)"

fun lt_nan :: "real \<Rightarrow> real option \<Rightarrow> bool" where
  "lt_nan x None = False"
| "lt_nan x (Some y) = (x < y)"

fun nan_ge :: "real option \<Rightarrow> real \<Rightarrow> bool" where
  "nan_ge None y = False"
| "nan_ge (Some x) y = (x \<ge> y)"

record regime =
  regime_score :: int
  bias :: string
  spy_close :: real
  spy_sma200 :: "real option"
  ema20_gt_ema50 :: bool
  regime_rsi14 :: "real option"

text \<open>
  \<open>market_regime\<close> on the fetched benchmark frame. \<open>roc20\<close> is 0.0 with fewer than 21
  rows. The output field \<open>roc20_pct\<close> is left out.
\<close>

definition market_regime :: "frame \<Rightarrow> error + regime" where
  "market_regime df =
     (case rsi (map close (rows df)) 14 of
        Inl e \<Rightarrow> Inl e
      | Inr rsi14 \<Rightarrow>
          if rows df = [] then Inl IndexError
          else
            let c = map close (rows df);
                sma200 = sma c 200;
                ema20 = ema c 20;
                ema50 = ema c 50;
                roc20_ok = (if length c \<ge> 21 then roc_nonneg (float_div (last c) (c ! (length c - 21)))
                            else True);
                score = (0::int)
                  + (if gt_nan (last c) (last sma200) then 1 else - 1)
                  + (if last ema20 > last ema50 then 1 else - 1)
                  + (if nan_ge (last rsi14) 50 then 1 else - 1)
                  + (if roc20_ok then 1 else - 1);
                b = (if score \<ge> 2 then ''bullish'' else if score \<le> - 2 then ''bearish'' else ''neutral'')
            in Inr \<lparr>regime_score = score, bias = b, spy_close = round2 (last c),
                    spy_sma200 = map_option round2 (last sma200),
                    ema20_gt_ema50 = (last ema20 > last ema50),
                    regime_rsi14 = map_option round2 (last rsi14)\<rparr>)"

section \<open>Candidate plans\<close>

text \<open>The key \<open>_score\<close> is the field \<open>score\<close>; it is \<open>None\<close> once \<open>main\<close> has popped it.\<close>

record plan =
  strategy :: string
  active :: bool
  entry :: real
  stop :: real
  target :: real
  rr :: real
  reason :: string
  direction :: string
  horizon :: string
  score :: "real option"

definition plan_dict ::
  "real \<Rightarrow> real \<Rightarrow> real \<Rightarrow> real \<Rightarrow> string \<Rightarrow> string \<Rightarrow> string \<Rightarrow> string \<Rightarrow> real \<Rightarrow> plan" where
  "plan_dict e s t r why strat dir hor sc =
     \<lparr>strategy = strat, active = True, entry = round2 e, stop = round2 s, target = round2 t,
      rr = round2 r, reason = why, direction = dir, horizon = hor, score = Some (round3 sc)\<rparr>"

text \<open>
  The quality scorers read the last row of a frame that carries the indicator columns;
  here they take those last values. A NaN \<open>rsi14\<close> makes \<open>pts\<close> NaN, and
  \<open>max(0.0, pts)\<close> is then 0.0.
\<close>

definition quality_long :: "real \<Rightarrow> real option \<Rightarrow> real \<Rightarrow> real \<Rightarrow> real option \<Rightarrow> real" where
  "quality_long c sma200 ema20 ema50 rsi14 =
     (let pts = 0 + (if gt_nan c sma200 then 1 else 0) + (if ema20 > ema50 then 1 else 0)
      in case rsi14 of None \<Rightarrow> 0 | Some r \<Rightarrow> max 0 (pts + (r - 50) / 50))"

definition quality_short :: "real \<Rightarrow> real option \<Rightarrow> real \<Rightarrow> real \<Rightarrow> real option \<Rightarrow> real" where
  "quality_short c sma200 ema20 ema50 rsi14 =
     (let pts = 0 + (if lt_nan c sma200 then 1 else 0) + (if ema20 < ema50 then 1 else 0)
      in case rsi14 of None \<Rightarrow> 0 | Some r \<Rightarrow> max 0 (pts + (50 - r) / 50))"

section \<open>Short-term strategies\<close>

text \<open>
  Each strategy computes its indicator columns, reads the last row (IndexError without
  rows) and declines with \<open>None\<close> when a required value is NaN. The \<open>ema\<close> columns never
  hold NaN.
\<close>

definition strat_trend_pullback_long :: "frame \<Rightarrow> error + plan option" where
  "strat_trend_pullback_long df =
     (case rsi (map close (rows df)) 14 of
        Inl e \<Rightarrow> Inl e
      | Inr rsi14s \<Rightarrow>
          if rows df = [] then Inl IndexError
          else
            let d = rows df; c = map close d;
                ema5 = last (ema c 5); ema20 = last (ema c 20); ema50 = last (ema c 50)
            in case (last (sma c 200), last rsi14s, last (atr d 14)) of
                 (Some sma200, Some rsi14, Some atr14) \<Rightarrow>
                   if \<not> (ema5 > ema20 \<and> rsi14 \<ge> UPTREND_RSI_MIN) then Inr None
                   else
                     let prior_high = high (last d);
                         entry = prior_high + 0.05;
                         stop = entry - RISK_MULT * atr14;
                         target = entry + REWARD_MULT * atr14;
                         rr = (target - entry) / max (entry - stop) (1 / 1000000);
                         q = quality_long (last c) (Some sma200) ema20 ema50 (Some rsi14);
                         score = rr * (1.0 + 0.5 * q)
                     in Inr (Some (plan_dict entry stop target rr ''Uptrend, breakout of prior high.''
                                     ''TrendPullbackLong'' ''bullish'' ''short'' score))
               | _ \<Rightarrow> Inr None)"

definition strat_mean_reversion_long :: "frame \<Rightarrow> error + plan option" where
  "strat_mean_reversion_long df =
     (case (rsi (map close (rows df)) 2, rsi (map close (rows df)) 14) of
        (Inl e, _) \<Rightarrow> Inl e
      | (_, Inl e) \<Rightarrow> Inl e
      | (Inr rsi2s, Inr rsi14s) \<Rightarrow>
          if rows df = [] then Inl IndexError
          else
            let d = rows df; c = map close d;
                sma5 = last (sma c 5); ema20 = last (ema c 20); ema50 = last (ema c 50)
            in if sma5 = None then Inr None
               else case (last (sma c MR_TREND_MA), last rsi2s, last (atr d 14)) of
                 (Some sma200, Some rsi2, Some atr14) \<Rightarrow>
                   if \<not> (last c > sma200 \<and> rsi2 < MR_RSI2_MAX) then Inr None
                   else
                     let entry = last c;
                         stop = entry - RISK_MULT * atr14;
                         target = (case sma5 of Some m \<Rightarrow> m | None \<Rightarrow> entry + REWARD_MULT * atr14);
                         rr = (target - entry) / max (entry - stop) (1 / 1000000);
                         q = quality_long (last c) (last (sma c 200)) ema20 ema50 (last rsi14s);
                         score = rr * (1.0 + 0.5 * q)
                     in Inr (Some (plan_dict entry stop target rr ''RSI(2) oversold, snapback to 5SMA.''
                                     ''MeanReversionLong'' ''bullish'' ''short'' score))
               | _ \<Rightarrow> Inr None)"

definition strat_trend_pullback_short :: "frame \<Rightarrow> error + plan option" where
  "strat_trend_pullback_short df =
     (case rsi (map close (rows df)) 14 of
        Inl e \<Rightarrow> Inl e
      | Inr rsi14s \<Rightarrow>
          if rows df = [] then Inl IndexError
          else
            let d = rows df; c = map close d;
                ema5 = last (ema c 5); ema20 = last (ema c 20); ema50 = last (ema c 50)
            in case (last (sma c 200), last rsi14s, last (atr d 14)) of
                 (Some sma200, Some rsi14, Some atr14) \<Rightarrow>
                   if \<not> (ema5 < ema20 \<and> rsi14 \<le> DOWNTREND_RSI_MAX) then Inr None
                   else
                     let prior_low = low (last d);
                         entry = prior_low - 0.05;
                         stop = entry + RISK_MULT * atr14;
                         target = entry - REWARD_MULT * atr14;
                         rr = (entry - target) / max (stop - entry) (1 / 1000000);
                         q = quality_short (last c) (Some sma200) ema20 ema50 (Some rsi14);
                         score = rr * (1.0 + 0.5 * q)
                     in Inr (Some (plan_dict entry stop target rr ''Downtrend, breakdown of prior low.''
                                     ''TrendPullbackShort'' ''bearish'' ''short'' score))
               | _ \<Rightarrow> Inr None)"

definition strat_mean_reversion_short :: "frame \<Rightarrow> error + plan option" where
  "strat_mean_reversion_short df =
     (case (rsi (map close (rows df)) 2, rsi (map close (rows df)) 14) of
        (Inl e, _) \<Rightarrow> Inl e
      | (_, Inl e) \<Rightarrow> Inl e
      | (Inr rsi2s, Inr rsi14s) \<Rightarrow>
          if rows df = [] then Inl IndexError
          else
            let d = rows df; c = map close d;
                sma5 = last (sma c 5); ema20 = last (ema c 20); ema50 = last (ema c 50)
            in if sma5 = None then Inr None
               else case (last (sma c MR_TREND_MA), last rsi2s, last (atr d 14)) of
                 (Some sma200, Some rsi2, Some atr14) \<Rightarrow>
                   if \<not> (last c < sma200 \<and> rsi2 > MR_RSI2_MIN) then Inr None
                   else
                     let entry = last c;
                         stop = entry + RISK_MULT * atr14;
                         target = (case sma5 of Some m \<Rightarrow> m | None \<Rightarrow> entry - REWARD_MULT * atr14);
                         rr = (entry - target) / max (stop - entry) (1 / 1000000);
                         q = quality_short (last c) (last (sma c 200)) ema20 ema50 (last rsi14s);
                         score = rr * (1.0 + 0.5 * q)
                     in Inr (Some (plan_dict entry stop target rr ''RSI(2) overbought, drop to 5SMA.''
                                     ''MeanReversionShort'' ''bearish'' ''short'' score))
               | _ \<Rightarrow> Inr None)"

section \<open>Momentum fallback\<close>

definition momentum_info_plan :: "frame \<Rightarrow> error + plan option" where
  "momentum_info_plan df =
     (if rows df = [] then Inl IndexError
      else
        let d = rows df; c = map close d
        in case last (atr d 14) of
             None \<Rightarrow> Inr None
           | Some atr14 \<Rightarrow>
               if length d < 21 then Inr None
               else
                 let bullish = roc_nonneg (float_div (last c) (c ! (length c - 21)));
                     entry = round2 (last c)
                 in if bullish then
                      let stop = round2 (entry - RISK_MULT * atr14);
                          target = round2 (entry + REWARD_MULT * atr14);
                          rr = (target - entry) / max (entry - stop) (1 / 1000000)
                      in Inr (Some (plan_dict entry stop target rr ''20d momentum up.''
                                      ''MomentumInfo'' ''bullish'' ''short'' rr))
                    else
                      let stop = round2 (entry + RISK_MULT * atr14);
                          target = round2 (entry - REWARD_MULT * atr14);
                          rr = (entry - target) / max (stop - entry) (1 / 1000000)
                      in Inr (Some (plan_dict entry stop target rr ''20d momentum down.''
                                      ''MomentumInfo'' ''bearish'' ''short'' rr)))"

section \<open>Weekly aggregation and the long-term strategy\<close>

text \<open>
  \<open>resample('W-FRI')\<close> puts each date into the week that ends on the next Friday (a
  Friday into its own week) and labels the week by that Friday. With the day numbering of
  \<open>date\<close>, the days 2 to 8 are the week of bin 0, labelled 8.
\<close>

definition week_bin :: "int \<Rightarrow> int" where
  "week_bin d = (d - 2) div 7"

definition week_label :: "int \<Rightarrow> int" where
  "week_label k = 7 * k + 8"

text \<open>
  The aggregate of one weekly bucket, over the rows in frame order. An empty bucket has
  NaN for first, max, min and last, and \<open>dropna()\<close> removes its row: \<open>None\<close> here.
\<close>

definition agg_week :: "bar list \<Rightarrow> int \<Rightarrow> bar option" where
  "agg_week rs k =
     (let g = filter (\<lambda>r. week_bin (date r) = k) rs
      in if g = [] then None
         else Some \<lparr>date = week_label k, open_price = open_price (hd g),
                    high = Max (set (map high g)), low = Min (set (map low g)),
                    close = close (last g), volume = sum_list (map volume g)\<rparr>)"

text \<open>
  The buckets run from the week of the earliest date to the week of the latest one.
  Aggregating the column \<open>volume\<close> of a frame that has none raises KeyError.
\<close>

definition resample_weekly :: "frame \<Rightarrow> error + bar list" where
  "resample_weekly df =
     (if \<not> has_volume df then Inl KeyError
      else if rows df = [] then Inr []
      else
        let ds = map date (rows df)
        in Inr (List.map_filter (agg_week (rows df)) [week_bin (Min (set ds)) .. week_bin (Max (set ds))]))"

definition invest_trend_weekly_long :: "frame \<Rightarrow> error + plan option" where
  "invest_trend_weekly_long df_daily =
     (case resample_weekly df_daily of
        Inl e \<Rightarrow> Inl e
      | Inr w \<Rightarrow>
          if length w < LT_MIN_WEEKS then Inr None
          else case rsi (map close w) 14 of
            Inl e \<Rightarrow> Inl e
          | Inr rsi14ws \<Rightarrow>
              let c = map close w; ema10 = last (ema c 10); ema30 = last (ema c 30)
              in case (last (sma c LT_SMA_WEEKS), last rsi14ws, last (atr w 14)) of
                   (Some sma40, Some rsi14w, Some atr14w) \<Rightarrow>
                     if \<not> (last c > sma40 \<and> ema10 > ema30 \<and> rsi14w \<ge> LT_RSI_MIN) then Inr None
                     else
                       let entry = last c;
                           stop = entry - LT_STOP_ATR_MULT * atr14w;
                           target = entry + LT_TARGET_ATR_MULT * atr14w;
                           rr = (target - entry) / max (entry - stop) (1 / 1000000);
                           dist = (last c - sma40) / max (1 / 1000000) sma40;
                           momq = (rsi14w - 50.0) / 50.0;
                           score = rr * (1.0 + 0.7 * max 0.0 dist + 0.5 * max 0.0 momq)
                       in Inr (Some (plan_dict entry stop target rr
                            ''Weekly uptrend (close>SMA40, EMA10>EMA30, RSIw>55). Position trade.''
                            ''WeeklyTrendLong'' ''bullish'' ''long'' score))
                 | _ \<Rightarrow> Inr None)"

section \<open>Selection and ranking\<close>

record idea =
  symbol :: string
  plan :: plan

definition WATCHLIST :: "string list" where
  "WATCHLIST =
     [''spy.us'', ''qqq.us'', ''iwm.us'',
      ''xlk.us'', ''xlf.us'', ''xle.us'', ''xlv.us'', ''xly.us'', ''xlb.us'', ''xli.us'',
      ''xlp.us'', ''xlu.us'', ''xlc.us'',
      ''aapl.us'', ''msft.us'', ''nvda.us'', ''amzn.us'', ''goog.us'', ''meta.us'', ''tsla.us'',
      ''amd.us'', ''avgo.us'']"

text \<open>\<open>str.upper\<close> on the ASCII letters of a symbol.\<close>

definition upper :: "string \<Rightarrow> string" where
  "upper s = map (\<lambda>c. let n = (of_char c :: nat) in if 97 \<le> n \<and> n \<le> 122 then char_of (n - 32) else c) s"

text \<open>
  The sort key \<open>(plan.get("_score", 0.0), plan.get("rr", 0.0))\<close>; Python compares the
  tuples lexicographically, as the order on pairs does here.
\<close>

definition rank_key :: "idea \<Rightarrow> real \<times> real" where
  "rank_key r = (case score (plan r) of None \<Rightarrow> 0.0 | Some s \<Rightarrow> s, rr (plan r))"

text \<open>
  \<open>list.sort(key=..., reverse=True)\<close> is stable: it reverses the list, sorts it upwards
  and reverses it again.
\<close>

definition sort_desc :: "('a \<Rightarrow> 'k::linorder) \<Rightarrow> 'a list \<Rightarrow> 'a list" where
  "sort_desc key xs = rev (sort_key key (rev xs))"

definition rank_and_cap :: "nat \<Rightarrow> idea list \<Rightarrow> idea list" where
  "rank_and_cap cap results = take cap (sort_desc rank_key results)"

definition pop_score :: "idea \<Rightarrow> idea" where
  "pop_score r = r\<lparr>plan := (plan r)\<lparr>score := None\<rparr>\<rparr>"

text \<open>
  One pass of the watchlist loop, on the two accumulators. The fetch result is an input.
  An exception inside the \<open>try\<close> ends the pass and keeps what was appended before it; the
  short-term candidates are all computed before the first append. Writing the OHLC file
  is left out.
\<close>

definition scan_symbol ::
  "string \<Rightarrow> error + frame \<Rightarrow> idea list \<times> idea list \<Rightarrow> idea list \<times> idea list" where
  "scan_symbol symb fetched acc =
     (case acc of (short_results, long_results) \<Rightarrow>
      case fetched of
        Inl e \<Rightarrow> acc
      | Inr df \<Rightarrow>
          if length (rows df) < 210 then acc
          else case liquidity_ok df of
            Inl e \<Rightarrow> acc
          | Inr ok \<Rightarrow>
              if \<not> ok then acc
              else case (strat_trend_pullback_long df, strat_mean_reversion_long df,
                         strat_trend_pullback_short df, strat_mean_reversion_short df,
                         momentum_info_plan df) of
                (Inr c1, Inr c2, Inr c3, Inr c4, Inr c5) \<Rightarrow>
                  let cands_short = [c1, c2, c3, c4, c5];
                      short_results' = short_results @
                        map (\<lambda>c. \<lparr>symbol = upper symb, plan = c\<rparr>) (List.map_filter id cands_short)
                  in (case invest_trend_weekly_long df of
                        Inl e \<Rightarrow> (short_results', long_results)
                      | Inr None \<Rightarrow> (short_results', long_results)
                      | Inr (Some lt) \<Rightarrow>
                          (short_results', long_results @ [\<lparr>symbol = upper symb, plan = lt\<rparr>]))
              | _ \<Rightarrow> acc)"

record payload =
  watchlist :: "string list"
  market_bias :: regime
  ideas :: "idea list"
  disclaimer :: string

text \<open>
  \<open>main\<close>, with the price provider as a function from symbols to fetch results. A
  failure for the benchmark is not caught. The timestamp and the files are left out.
\<close>

definition main :: "(string \<Rightarrow> error + frame) \<Rightarrow> error + payload" where
  "main fetch =
     (case fetch ''spy.us'' of
        Inl e \<Rightarrow> Inl e
      | Inr spy \<Rightarrow>
          case market_regime spy of
            Inl e \<Rightarrow> Inl e
          | Inr regime \<Rightarrow>
              case fold (\<lambda>symb acc. scan_symbol symb (fetch symb) acc) WATCHLIST ([], []) of
                (short_results, long_results) \<Rightarrow>
                  let short_results = rank_and_cap MAX_SHORT_IDEAS short_results;
                      long_results = rank_and_cap MAX_LONG_IDEAS long_results;
                      ideas = map pop_score (short_results @ long_results)
                  in Inr \<lparr>watchlist = WATCHLIST, market_bias = regime, ideas = ideas,
                          disclaimer = ''Educational use only. Not financial advice. Data provided as-is from public sources.''\<rparr>)"

section \<open>Properties named by the specification\<close>

text \<open>
  The ordering of a plan's levels as the specification states it: target above entry above
  stop for a bullish plan, the reverse for a bearish one.
\<close>

definition strictly_ordered :: "plan \<Rightarrow> bool" where
  "strictly_ordered p \<longleftrightarrow>
     (direction p = ''bullish'' \<longrightarrow> stop p < entry p \<and> entry p < target p) \<and>
     (direction p = ''bearish'' \<longrightarrow> target p < entry p \<and> entry p < stop p)"

text \<open>The same ordering with equality allowed.\<close>

definition weakly_ordered :: "plan \<Rightarrow> bool" where
  "weakly_ordered p \<longleftrightarrow>
     (direction p = ''bullish'' \<longrightarrow> stop p \<le> entry p \<and> entry p \<le> target p) \<and>
     (direction p = ''bearish'' \<longrightarrow> target p \<le> entry p \<and> entry p \<le> stop p)"

text \<open>Only the stop lies on its side of the entry.\<close>

definition stop_side_ordered :: "plan \<Rightarrow> bool" where
  "stop_side_ordered p \<longleftrightarrow>
     (direction p = ''bullish'' \<longrightarrow> stop p \<le> entry p) \<and>
     (direction p = ''bearish'' \<longrightarrow> entry p \<le> stop p)"

text \<open>
  The reward/risk ratio as the specification states it, from the levels \<open>e\<close>, \<open>s\<close> and
  \<open>t\<close> of entry, stop and target.
\<close>

definition spec_rr :: "real \<Rightarrow> real \<Rightarrow> real \<Rightarrow> real" where
  "spec_rr e s t = \<bar>t - e\<bar> / max \<bar>e - s\<bar> (1 / 1000000)"

text \<open>
  A plan built from the levels \<open>e\<close>, \<open>s\<close> and \<open>t\<close>: its prices are their roundings and
  its ratio is the rounding of the specified ratio of the levels.
\<close>

definition built_from_levels :: "plan \<Rightarrow> real \<Rightarrow> real \<Rightarrow> real \<Rightarrow> bool" where
  "built_from_levels p e s t \<longleftrightarrow>
     entry p = round2 e \<and> stop p = round2 s \<and> target p = round2 t \<and> rr p = round2 (spec_rr e s t)"

text \<open>The ranking score of an idea, and the descending lexicographic order on (score, ratio).\<close>

definition ranking_score :: "idea \<Rightarrow> real" where
  "ranking_score r = (case score (plan r) of None \<Rightarrow> 0 | Some s \<Rightarrow> s)"

definition lex_ge :: "idea \<Rightarrow> idea \<Rightarrow> bool" where
  "lex_ge a b \<longleftrightarrow>
     ranking_score b < ranking_score a \<or>
     ranking_score a = ranking_score b \<and> rr (plan b) \<le> rr (plan a)"

text \<open>The daily rows of the calendar week whose Monday is day \<open>m\<close>: Saturday to Friday.\<close>

definition week_rows :: "int \<Rightarrow> bar list \<Rightarrow> bar list" where
  "week_rows m rs = filter (\<lambda>r. m - 2 \<le> date r \<and> date r \<le> m + 4) rs"

section \<open>Example inputs\<close>

text \<open>
  Rows from a list of (open, high, low, close, volume), dated from day \<open>d0\<close> on in steps
  of \<open>step\<close> days.
\<close>

definition dated :: "int \<Rightarrow> int \<Rightarrow> (real \<times> real \<times> real \<times> real \<times> real) list \<Rightarrow> bar list" where
  "dated d0 step xs =
     map (\<lambda>(i, (o', h, l, c, v)).
            \<lparr>date = d0 + step * int i, open_price = o', high = h, low = l, close = c, volume = v\<rparr>)
       (enumerate 0 xs)"

text \<open>A long flat stretch at 92, a jump to 113 and fifteen days at 100, each day with a range of 2.\<close>

definition frame_uptrend :: frame where
  "frame_uptrend =
     \<lparr>rows = dated 19000 1 (replicate 194 (92, 93, 91, 92, 1000000) @
        [(92, 93, 91, 92, 1000000), (113, 114, 112, 113, 1000000), (100, 101, 99, 100, 1000000),
         (100, 101, 99, 100, 1000000), (100, 101, 99, 100, 1000000),
         (100, 101, 99, 100, 1000000), (100, 101, 99, 100, 1000000),
         (100, 101, 99, 100, 1000000), (100, 101, 99, 100, 1000000),
         (100, 101, 99, 100, 1000000), (100, 101, 99, 100, 1000000),
         (100, 101, 99, 100, 1000000), (100, 101, 99, 100, 1000000),
         (100, 101, 99, 100, 1000000), (100, 101, 99, 100, 1000000),
         (100, 101, 99, 100, 1000000), (100, 101, 99, 100, 1000000)]),
      has_volume = True\<rparr>"

text \<open>The mirror image: flat at 108, a drop to 87 and fifteen days at 100.\<close>

definition frame_downtrend :: frame where
  "frame_downtrend =
     \<lparr>rows = dated 19000 1 (replicate 194 (108, 109, 107, 108, 1000000) @
        [(108, 109, 107, 108, 1000000), (87, 88, 86, 87, 1000000), (100, 101, 99, 100, 1000000),
         (100, 101, 99, 100, 1000000), (100, 101, 99, 100, 1000000),
         (100, 101, 99, 100, 1000000), (100, 101, 99, 100, 1000000),
         (100, 101, 99, 100, 1000000), (100, 101, 99, 100, 1000000),
         (100, 101, 99, 100, 1000000), (100, 101, 99, 100, 1000000),
         (100, 101, 99, 100, 1000000), (100, 101, 99, 100, 1000000),
         (100, 101, 99, 100, 1000000), (100, 101, 99, 100, 1000000),
         (100, 101, 99, 100, 1000000), (100, 101, 99, 100, 1000000)]),
      has_volume = True\<rparr>"

text \<open>Flat at 50, eleven days at 100, a drop to 70 five days before the end and a last close of 70.2, above the mean of the last five closes.\<close>

definition frame_oversold :: frame where
  "frame_oversold =
     \<lparr>rows = dated 19000 1 (replicate 194 (50, 50.5, 49.5, 50, 1000000) @
        [(50, 50.5, 49.5, 50, 1000000), (100, 100.5, 99.5, 100, 1000000),
         (100, 100.5, 99.5, 100, 1000000), (100, 100.5, 99.5, 100, 1000000),
         (100, 100.5, 99.5, 100, 1000000), (100, 100.5, 99.5, 100, 1000000),
         (100, 100.5, 99.5, 100, 1000000), (100, 100.5, 99.5, 100, 1000000),
         (100, 100.5, 99.5, 100, 1000000), (100, 100.5, 99.5, 100, 1000000),
         (100, 100.5, 99.5, 100, 1000000), (100, 100.5, 99.5, 100, 1000000),
         (70, 70.5, 69.5, 70, 1000000), (70, 70.5, 69.5, 70, 1000000),
         (70, 70.5, 69.5, 70, 1000000), (70, 70.5, 69.5, 70, 1000000),
         (70.2, 70.7, 69.7, 70.2, 1000000)]),
      has_volume = True\<rparr>"

text \<open>Flat at 150, eleven days at 100, a jump to 130 five days before the end and a last close of 129.8, below the mean of the last five closes.\<close>

definition frame_overbought :: frame where
  "frame_overbought =
     \<lparr>rows = dated 19000 1 (replicate 194 (150, 150.5, 149.5, 150, 1000000) @
        [(150, 150.5, 149.5, 150, 1000000), (100, 100.5, 99.5, 100, 1000000),
         (100, 100.5, 99.5, 100, 1000000), (100, 100.5, 99.5, 100, 1000000),
         (100, 100.5, 99.5, 100, 1000000), (100, 100.5, 99.5, 100, 1000000),
         (100, 100.5, 99.5, 100, 1000000), (100, 100.5, 99.5, 100, 1000000),
         (100, 100.5, 99.5, 100, 1000000), (100, 100.5, 99.5, 100, 1000000),
         (100, 100.5, 99.5, 100, 1000000), (100, 100.5, 99.5, 100, 1000000),
         (130, 130.5, 129.5, 130, 1000000), (130, 130.5, 129.5, 130, 1000000),
         (130, 130.5, 129.5, 130, 1000000), (130, 130.5, 129.5, 130, 1000000),
         (129.8, 130.3, 129.3, 129.8, 1000000)]),
      has_volume = True\<rparr>"

text \<open>Flat at 50, twelve days at 100 and a drop to 70 four days before the end: the last close lies below the mean of the last five closes.\<close>

definition frame_dip :: frame where
  "frame_dip =
     \<lparr>rows = dated 19000 1 (replicate 194 (50, 50.5, 49.5, 50, 1000000) @
        [(50, 50.5, 49.5, 50, 1000000), (100, 100.5, 99.5, 100, 1000000),
         (100, 100.5, 99.5, 100, 1000000), (100, 100.5, 99.5, 100, 1000000),
         (100, 100.5, 99.5, 100, 1000000), (100, 100.5, 99.5, 100, 1000000),
         (100, 100.5, 99.5, 100, 1000000), (100, 100.5, 99.5, 100, 1000000),
         (100, 100.5, 99.5, 100, 1000000), (100, 100.5, 99.5, 100, 1000000),
         (100, 100.5, 99.5, 100, 1000000), (100, 100.5, 99.5, 100, 1000000),
         (100, 100.5, 99.5, 100, 1000000), (70, 70.5, 69.5, 70, 1000000),
         (70, 70.5, 69.5, 70, 1000000), (70, 70.5, 69.5, 70, 1000000),
         (70, 70.5, 69.5, 70, 1000000)]),
      has_volume = True\<rparr>"

text \<open>Flat at 150, twelve days at 100 and a jump to 130 four days before the end: the last close lies above the mean of the last five closes.\<close>

definition frame_spike :: frame where
  "frame_spike =
     \<lparr>rows = dated 19000 1 (replicate 194 (150, 150.5, 149.5, 150, 1000000) @
        [(150, 150.5, 149.5, 150, 1000000), (100, 100.5, 99.5, 100, 1000000),
         (100, 100.5, 99.5, 100, 1000000), (100, 100.5, 99.5, 100, 1000000),
         (100, 100.5, 99.5, 100, 1000000), (100, 100.5, 99.5, 100, 1000000),
         (100, 100.5, 99.5, 100, 1000000), (100, 100.5, 99.5, 100, 1000000),
         (100, 100.5, 99.5, 100, 1000000), (100, 100.5, 99.5, 100, 1000000),
         (100, 100.5, 99.5, 100, 1000000), (100, 100.5, 99.5, 100, 1000000),
         (100, 100.5, 99.5, 100, 1000000), (130, 130.5, 129.5, 130, 1000000),
         (130, 130.5, 129.5, 130, 1000000), (130, 130.5, 129.5, 130, 1000000),
         (130, 130.5, 129.5, 130, 1000000)]),
      has_volume = True\<rparr>"

text \<open>As the first frame, but the last fifteen days have no range at all: open, high, low and close are 100, so the ATR is 0.\<close>

definition frame_flat :: frame where
  "frame_flat =
     \<lparr>rows = dated 19000 1 (replicate 194 (92, 93, 91, 92, 1000000) @
        [(92, 93, 91, 92, 1000000), (113, 114, 112, 113, 1000000),
         (100, 100, 100, 100, 1000000), (100, 100, 100, 100, 1000000),
         (100, 100, 100, 100, 1000000), (100, 100, 100, 100, 1000000),
         (100, 100, 100, 100, 1000000), (100, 100, 100, 100, 1000000),
         (100, 100, 100, 100, 1000000), (100, 100, 100, 100, 1000000),
         (100, 100, 100, 100, 1000000), (100, 100, 100, 100, 1000000),
         (100, 100, 100, 100, 1000000), (100, 100, 100, 100, 1000000),
         (100, 100, 100, 100, 1000000), (100, 100, 100, 100, 1000000),
         (100, 100, 100, 100, 1000000)]),
      has_volume = True\<rparr>"

text \<open>One bar on each of 62 Fridays: flat at 92, a jump to 113 and fifteen weeks at 100.\<close>

definition frame_weekly_uptrend :: frame where
  "frame_weekly_uptrend =
     \<lparr>rows = dated 18999 7 (replicate 45 (92, 93, 91, 92, 1000000) @
        [(92, 93, 91, 92, 1000000), (113, 114, 112, 113, 1000000), (100, 101, 99, 100, 1000000),
         (100, 101, 99, 100, 1000000), (100, 101, 99, 100, 1000000),
         (100, 101, 99, 100, 1000000), (100, 101, 99, 100, 1000000),
         (100, 101, 99, 100, 1000000), (100, 101, 99, 100, 1000000),
         (100, 101, 99, 100, 1000000), (100, 101, 99, 100, 1000000),
         (100, 101, 99, 100, 1000000), (100, 101, 99, 100, 1000000),
         (100, 101, 99, 100, 1000000), (100, 101, 99, 100, 1000000),
         (100, 101, 99, 100, 1000000), (100, 101, 99, 100, 1000000)]),
      has_volume = True\<rparr>"

text \<open>Two bars, and a week of six daily bars from Monday, day 19002, to Saturday.\<close>

definition two_bars :: "bar list" where
  "two_bars =
     [\<lparr>date = 19002, open_price = 10, high = 11, low = 9, close = 10, volume = 1000000\<rparr>,
      \<lparr>date = 19003, open_price = 10, high = 12, low = 10, close = 12, volume = 1000000\<rparr>]"

definition frame_two_bars :: frame where
  "frame_two_bars = \<lparr>rows = two_bars, has_volume = True\<rparr>"

definition frame_one_week :: frame where
  "frame_one_week =
     \<lparr>rows = dated 19002 1
        [(10, 11, 9, 10, 100), (10, 12, 10, 12, 200), (12, 13, 11, 11, 300),
         (11, 11.5, 8, 9, 400), (9, 10, 8.5, 9.5, 500), (9.5, 10, 9, 10, 600)],
      has_volume = True\<rparr>"

text \<open>The plans that the strategies return on the example frames.\<close>

definition plan_uptrend_pullback :: plan where
  "plan_uptrend_pullback =
     \<lparr>strategy = ''TrendPullbackLong'', active = True, entry = 101.05, stop = 99.05, target = 104.65,
      rr = 1.8, reason = ''Uptrend, breakout of prior high.'',
      direction = ''bullish'', horizon = ''short'', score = Some (3.78)\<rparr>"

definition plan_uptrend_momentum :: plan where
  "plan_uptrend_momentum =
     \<lparr>strategy = ''MomentumInfo'', active = True, entry = 100, stop = 98, target = 103.6,
      rr = 1.8, reason = ''20d momentum up.'',
      direction = ''bullish'', horizon = ''short'', score = Some (1.8)\<rparr>"

definition plan_downtrend_pullback :: plan where
  "plan_downtrend_pullback =
     \<lparr>strategy = ''TrendPullbackShort'', active = True, entry = 98.95, stop = 100.95, target = 95.35,
      rr = 1.8, reason = ''Downtrend, breakdown of prior low.'',
      direction = ''bearish'', horizon = ''short'', score = Some (3.78)\<rparr>"

definition plan_downtrend_momentum :: plan where
  "plan_downtrend_momentum =
     \<lparr>strategy = ''MomentumInfo'', active = True, entry = 100, stop = 102, target = 96.4,
      rr = 1.8, reason = ''20d momentum down.'',
      direction = ''bearish'', horizon = ''short'', score = Some (1.8)\<rparr>"

definition plan_oversold_reversion :: plan where
  "plan_oversold_reversion =
     \<lparr>strategy = ''MeanReversionLong'', active = True, entry = 70.2, stop = 67.09, target = 70.04,
      rr = -0.05, reason = ''RSI(2) oversold, snapback to 5SMA.'',
      direction = ''bullish'', horizon = ''short'', score = Some (-0.099)\<rparr>"

definition plan_overbought_reversion :: plan where
  "plan_overbought_reversion =
     \<lparr>strategy = ''MeanReversionShort'', active = True, entry = 129.8, stop = 132.91, target = 129.96,
      rr = -0.05, reason = ''RSI(2) overbought, drop to 5SMA.'',
      direction = ''bearish'', horizon = ''short'', score = Some (-0.099)\<rparr>"

definition plan_dip_reversion :: plan where
  "plan_dip_reversion =
     \<lparr>strategy = ''MeanReversionLong'', active = True, entry = 70, stop = 66.89, target = 76,
      rr = 1.93, reason = ''RSI(2) oversold, snapback to 5SMA.'',
      direction = ''bullish'', horizon = ''short'', score = Some (3.682)\<rparr>"

definition plan_spike_reversion :: plan where
  "plan_spike_reversion =
     \<lparr>strategy = ''MeanReversionShort'', active = True, entry = 130, stop = 133.11, target = 124,
      rr = 1.93, reason = ''RSI(2) overbought, drop to 5SMA.'',
      direction = ''bearish'', horizon = ''short'', score = Some (3.682)\<rparr>"

definition plan_flat_pullback :: plan where
  "plan_flat_pullback =
     \<lparr>strategy = ''TrendPullbackLong'', active = True, entry = 100.05, stop = 100.05, target = 100.05,
      rr = 0, reason = ''Uptrend, breakout of prior high.'',
      direction = ''bullish'', horizon = ''short'', score = Some (0)\<rparr>"

definition plan_weekly_uptrend :: plan where
  "plan_weekly_uptrend =
     \<lparr>strategy = ''WeeklyTrendLong'', active = True, entry = 100, stop = 96, target = 108,
      rr = 2, reason = ''Weekly uptrend (close>SMA40, EMA10>EMA30, RSIw>55). Position trade.'',
      direction = ''bullish'', horizon = ''long'', score = Some (2.266)\<rparr>"

section \<open>Lemmas about the indicators\<close>

lemmas config_defs =
  UPTREND_RSI_MIN_def DOWNTREND_RSI_MAX_def MR_RSI2_MAX_def MR_RSI2_MIN_def MR_TREND_MA_def
  LT_SMA_WEEKS_def LT_RSI_MIN_def LT_MIN_WEEKS_def RISK_MULT_def REWARD_MULT_def
  LT_STOP_ATR_MULT_def LT_TARGET_ATR_MULT_def MIN_PRICE_def MIN_DOLLAR_VOL_def
  MAX_SHORT_IDEAS_def MAX_LONG_IDEAS_def

subsection \<open>ewm\<close>

lemma length_ewm_from [simp]: "length (ewm_from a y xs) = length xs"
  by (induction xs arbitrary: y) simp_all

lemma length_ewm_mean [simp]: "length (ewm_mean a xs) = length xs"
  by (cases xs) simp_all

lemma ewm_mean_Nil_iff [simp]: "ewm_mean a xs = [] \<longleftrightarrow> xs = []"
  by (cases xs) simp_all

lemma flat_step: "(1 - a) * c + a * c = (c::real)"
  by (simp add: algebra_simps)

lemma ewm_from_flat: "ewm_from a c (replicate k c @ ys) = replicate k c @ ewm_from a c ys"
  by (induction k) (simp_all add: flat_step)

lemma ewm_mean_flat_prefix:
  assumes "ys \<noteq> []" "hd ys = c"
  shows "ewm_mean a (replicate k c @ ys) = replicate k c @ ewm_mean a ys"
proof -
  obtain zs where ys: "ys = c # zs" using assms by (cases ys) auto
  have step: "ewm_from a c (c # zs) = c # ewm_from a c zs" by (simp add: flat_step)
  show ?thesis
  proof (cases k)
    case 0 then show ?thesis by simp
  next
    case (Suc j)
    have "ewm_mean a (replicate k c @ ys) = c # ewm_from a c (replicate j c @ ys)"
      by (simp add: Suc)
    also have "\<dots> = c # replicate j c @ ewm_from a c ys" by (simp add: ewm_from_flat)
    also have "\<dots> = replicate k c @ ewm_mean a ys"
      by (simp add: Suc ys flat_step replicate_app_Cons_same)
    finally show ?thesis .
  qed
qed

lemma last_ema_flat_prefix:
  "ys \<noteq> [] \<Longrightarrow> hd ys = c \<Longrightarrow> last (ema (replicate k c @ ys) n) = last (ema ys n)"
  by (simp add: ema_def ewm_mean_flat_prefix)

subsection \<open>gains and losses\<close>

lemma length_diff [simp]: "length (diff s) = length s"
  by (cases s) (simp_all add: diff_def)

lemma length_gains [simp]: "length (gains s) = length s"
  by (simp add: gains_def)

lemma length_losses [simp]: "length (losses s) = length s"
  by (simp add: losses_def)

lemma length_avg_gain [simp]: "length (avg_gain s n) = length s"
  by (simp add: avg_gain_def)

lemma length_avg_loss [simp]: "length (avg_loss s n) = length s"
  by (simp add: avg_loss_def)

lemma Nil_iff_length: "(length xs = length ys) \<Longrightarrow> (xs = []) = (ys = [])"
  by auto

lemma avg_gain_Nil_iff [simp]: "avg_gain s n = [] \<longleftrightarrow> s = []"
  by (rule Nil_iff_length) simp

lemma avg_loss_Nil_iff [simp]: "avg_loss s n = [] \<longleftrightarrow> s = []"
  by (rule Nil_iff_length) simp

lemma gains_Cons_same: "gains (c # c # zs) = 0 # gains (c # zs)"
  by (simp add: gains_def diff_def)

lemma losses_Cons_same: "losses (c # c # zs) = 0 # losses (c # zs)"
  by (simp add: losses_def diff_def)

lemma gains_flat_prefix:
  assumes "ys \<noteq> []" "hd ys = c"
  shows "gains (replicate k c @ ys) = replicate k 0 @ gains ys"
proof -
  obtain zs where ys: "ys = c # zs" using assms by (cases ys) auto
  show ?thesis unfolding ys
  proof (induction k)
    case 0 show ?case by simp
  next
    case (Suc k)
    have e: "replicate k c @ c # zs = c # (replicate k c @ zs)"
      by (rule replicate_app_Cons_same)
    have "gains (replicate (Suc k) c @ c # zs) = gains (c # c # (replicate k c @ zs))"
      by (simp only: replicate_Suc append_Cons e)
    also have "\<dots> = 0 # gains (c # (replicate k c @ zs))"
      by (rule gains_Cons_same)
    also have "\<dots> = 0 # gains (replicate k c @ c # zs)"
      by (simp only: e)
    also have "\<dots> = replicate (Suc k) 0 @ gains (c # zs)"
      using Suc.IH by simp
    finally show ?case .
  qed
qed

lemma losses_flat_prefix:
  assumes "ys \<noteq> []" "hd ys = c"
  shows "losses (replicate k c @ ys) = replicate k 0 @ losses ys"
proof -
  obtain zs where ys: "ys = c # zs" using assms by (cases ys) auto
  show ?thesis unfolding ys
  proof (induction k)
    case 0 show ?case by simp
  next
    case (Suc k)
    have e: "replicate k c @ c # zs = c # (replicate k c @ zs)"
      by (rule replicate_app_Cons_same)
    have "losses (replicate (Suc k) c @ c # zs) = losses (c # c # (replicate k c @ zs))"
      by (simp only: replicate_Suc append_Cons e)
    also have "\<dots> = 0 # losses (c # (replicate k c @ zs))"
      by (rule losses_Cons_same)
    also have "\<dots> = 0 # losses (replicate k c @ c # zs)"
      by (simp only: e)
    also have "\<dots> = replicate (Suc k) 0 @ losses (c # zs)"
      using Suc.IH by simp
    finally show ?case .
  qed
qed

lemma hd_gains: "s \<noteq> [] \<Longrightarrow> hd (gains s) = 0"
  by (cases s) (simp_all add: gains_def diff_def)

lemma hd_losses: "s \<noteq> [] \<Longrightarrow> hd (losses s) = 0"
  by (cases s) (simp_all add: losses_def diff_def)

lemma gains_Nil_iff [simp]: "gains s = [] \<longleftrightarrow> s = []"
  using length_gains [of s] by (metis length_0_conv)

lemma losses_Nil_iff [simp]: "losses s = [] \<longleftrightarrow> s = []"
  using length_losses [of s] by (metis length_0_conv)

lemma last_avg_gain_flat_prefix:
  assumes "ys \<noteq> []" "hd ys = c"
  shows "last (avg_gain (replicate k c @ ys) n) = last (avg_gain ys n)"
proof -
  have "ewm_mean (1 / real n) (replicate k 0 @ gains ys) = replicate k 0 @ ewm_mean (1 / real n) (gains ys)"
    using assms by (intro ewm_mean_flat_prefix) (simp_all add: hd_gains)
  then show ?thesis
    using assms by (simp add: avg_gain_def gains_flat_prefix)
qed

lemma last_avg_loss_flat_prefix:
  assumes "ys \<noteq> []" "hd ys = c"
  shows "last (avg_loss (replicate k c @ ys) n) = last (avg_loss ys n)"
proof -
  have "ewm_mean (1 / real n) (replicate k 0 @ losses ys) = replicate k 0 @ ewm_mean (1 / real n) (losses ys)"
    using assms by (intro ewm_mean_flat_prefix) (simp_all add: hd_losses)
  then show ?thesis
    using assms by (simp add: avg_loss_def losses_flat_prefix)
qed

lemma last_map_zip:
  assumes "length xs = length ys" "xs \<noteq> []"
  shows "last (map f (zip xs ys)) = f (last xs, last ys)"
proof -
  have ys: "ys \<noteq> []" using assms by auto
  then have "zip xs ys \<noteq> []" using assms by (cases xs; cases ys) auto
  then have "last (map f (zip xs ys)) = f (last (zip xs ys))" by (rule last_map)
  then show ?thesis using assms ys by (simp add: last_zip)
qed

lemma rsi_Inr:
  "n \<noteq> 0 \<Longrightarrow> rsi s n = Inr (map (\<lambda>(ru, rd0). rsi_value ru rd0) (zip (avg_gain s n) (avg_loss s n)))"
  by (simp add: rsi_def)

lemma last_rsi_values:
  "s \<noteq> [] \<Longrightarrow>
   last (map (\<lambda>(ru, rd0). rsi_value ru rd0) (zip (avg_gain s n) (avg_loss s n)))
     = rsi_value (last (avg_gain s n)) (last (avg_loss s n))"
  by (subst last_map_zip) auto

subsection \<open>rolling means\<close>

lemma length_rolling_mean [simp]: "length (rolling_mean n xs) = length xs"
  by (simp add: rolling_mean_def)

lemma last_rolling_mean: "xs \<noteq> [] \<Longrightarrow> last (rolling_mean n xs) = window_mean n xs"
  by (simp add: rolling_mean_def last_map Suc_diff_1 [OF length_greater_0_conv [THEN iffD2]])

lemma those_map_Some [simp]: "those (map Some xs) = Some xs"
  by (induction xs) simp_all

lemma window_mean_Some:
  "window_mean n (map Some xs) =
     (if n = 0 \<or> length xs < n then None else Some (sum_list (drop (length xs - n) xs) / real n))"
  by (simp add: window_mean_def drop_map)

lemma last_sma:
  "s \<noteq> [] \<Longrightarrow> last (sma s n) =
     (if n = 0 \<or> length s < n then None else Some (sum_list (drop (length s - n) s) / real n))"
  by (simp add: sma_def last_rolling_mean window_mean_Some)

subsection \<open>true range\<close>

lemma length_true_range [simp]: "length (true_range df) = length df"
  by (cases df) (simp_all add: true_range_def)

lemma true_range_Nil_iff [simp]: "true_range df = [] \<longleftrightarrow> df = []"
  by (rule Nil_iff_length) simp

lemma true_range_nth:
  "0 < i \<Longrightarrow> i < length df \<Longrightarrow>
   true_range df ! i =
     max (high (df ! i) - low (df ! i))
       (max \<bar>high (df ! i) - close (df ! (i - 1))\<bar> \<bar>low (df ! i) - close (df ! (i - 1))\<bar>)"
  by (cases df; cases i) (simp_all add: true_range_def)

lemma drop_as_nths: "drop m xs = map (\<lambda>i. xs ! i) [m..<length xs]"
  by (rule nth_equalityI) simp_all

lemma last_atr:
  "df \<noteq> [] \<Longrightarrow> last (atr df n) =
     (if n = 0 \<or> length df < n then None
      else Some (sum_list (map (\<lambda>i. true_range df ! i) [length df - n..<length df]) / real n))"
  by (simp add: atr_def last_rolling_mean window_mean_Some drop_as_nths)

subsection \<open>example frames\<close>

lemma length_dated [simp]: "length (dated d0 step xs) = length xs"
  by (simp add: dated_def)

lemma dated_Nil_iff [simp]: "dated d0 step xs = [] \<longleftrightarrow> xs = []"
  by (rule Nil_iff_length) simp

lemma nth_dated:
  "i < length xs \<Longrightarrow> dated d0 step xs ! i =
     (case xs ! i of (o', h, l, c, v) \<Rightarrow>
        \<lparr>date = d0 + step * int i, open_price = o', high = h, low = l, close = c, volume = v\<rparr>)"
  by (simp add: dated_def nth_enumerate_eq split: prod.splits)

lemma map_close_dated: "map close (dated d0 step xs) = map (\<lambda>(o', h, l, c, v). c) xs"
  by (rule nth_equalityI) (simp_all add: nth_dated split: prod.splits)

lemma map_close_volume_dated:
  "map (\<lambda>b. close b * volume b) (dated d0 step xs) = map (\<lambda>(o', h, l, c, v). c * v) xs"
  by (rule nth_equalityI) (simp_all add: nth_dated split: prod.splits)

lemma last_dated:
  "xs \<noteq> [] \<Longrightarrow> last (dated d0 step xs) =
     (case last xs of (o', h, l, c, v) \<Rightarrow>
        \<lparr>date = d0 + step * int (length xs - 1), open_price = o', high = h, low = l, close = c, volume = v\<rparr>)"
  by (simp add: last_conv_nth nth_dated)

subsection \<open>rounding\<close>

lemma round_half_even_upper: "of_int (round_half_even x) \<le> x + 1 / 2"
  by (auto simp: round_half_even_def Let_def) linarith+

lemma round_half_even_lower: "x - 1 / 2 \<le> of_int (round_half_even x)"
  by (auto simp: round_half_even_def Let_def) linarith+

lemma round_half_even_of_int [simp]: "round_half_even (of_int k) = k"
  by (simp add: round_half_even_def)

lemma round_half_even_strict:
  assumes "x + 1 < y"
  shows "round_half_even x < round_half_even y"
proof -
  have "real_of_int (round_half_even x) \<le> x + 1 / 2" by (rule round_half_even_upper)
  also have "\<dots> < y - 1 / 2" using assms by simp
  also have "\<dots> \<le> of_int (round_half_even y)" by (rule round_half_even_lower)
  finally show ?thesis by simp
qed

lemma round_half_even_mono:
  assumes "x \<le> y"
  shows "round_half_even x \<le> round_half_even y"
proof (rule ccontr)
  assume "\<not> round_half_even x \<le> round_half_even y"
  then have gt: "round_half_even y + 1 \<le> round_half_even x" by simp
  then have "real_of_int (round_half_even y) + 1 \<le> of_int (round_half_even x)"
    by (metis of_int_1 of_int_add of_int_le_iff)
  moreover have "of_int (round_half_even x) \<le> x + 1 / 2" by (rule round_half_even_upper)
  moreover have "y - 1 / 2 \<le> of_int (round_half_even y)" by (rule round_half_even_lower)
  ultimately have "y \<le> x" by linarith
  with assms have "x = y" by simp
  with gt show False by simp
qed

lemma round2_mono: "x \<le> y \<Longrightarrow> round2 x \<le> round2 y"
  by (simp add: round2_def round_half_even_mono divide_right_mono)

lemma round2_strict: "x + 1 / 100 < y \<Longrightarrow> round2 x < round2 y"
proof -
  assume "x + 1 / 100 < y"
  then have "x * 100 + 1 < y * 100" by simp
  then have "round_half_even (x * 100) < round_half_even (y * 100)"
    by (rule round_half_even_strict)
  then show ?thesis by (simp add: round2_def divide_strict_right_mono)
qed

lemma round2_idem [simp]: "round2 (round2 x) = round2 x"
  by (simp add: round2_def)

lemma round2_zero [simp]: "round2 0 = 0"
  by (simp add: round2_def round_half_even_def)

lemma round2_nonneg: "0 \<le> x \<Longrightarrow> 0 \<le> round2 x"
  using round2_mono [of 0 x] by simp

lemma round2_nonpos: "x \<le> 0 \<Longrightarrow> round2 x \<le> 0"
  using round2_mono [of x 0] by simp

subsection \<open>average true range\<close>

lemma true_range_nonneg: "0 < i \<Longrightarrow> i < length df \<Longrightarrow> 0 \<le> true_range df ! i"
  by (simp add: true_range_nth le_max_iff_disj)

lemma last_atr_nonneg:
  assumes "last (atr df n) = Some a" "df \<noteq> []" "n < length df"
  shows "0 \<le> a"
proof -
  have n: "n \<noteq> 0" using assms by (auto simp: last_atr split: if_splits)
  have a: "a = sum_list (map (\<lambda>i. true_range df ! i) [length df - n..<length df]) / real n"
    using assms by (auto simp: last_atr split: if_splits)
  have "0 \<le> sum_list (map (\<lambda>i. true_range df ! i) [length df - n..<length df])"
    using assms(3) by (intro sum_list_nonneg) (auto intro!: true_range_nonneg)
  then show ?thesis unfolding a by simp
qed

lemma last_sma_Some_length: "s \<noteq> [] \<Longrightarrow> last (sma s n) = Some v \<Longrightarrow> 0 < n \<and> n \<le> length s"
  by (auto simp: last_sma split: if_splits)

lemma nth_rolling_mean:
  "i < length xs \<Longrightarrow> rolling_mean n xs ! i = window_mean n (take (Suc i) xs)"
  by (simp add: rolling_mean_def)

lemma atr_nth:
  "i < length df \<Longrightarrow> atr df n ! i =
     (if n = 0 \<or> Suc i < n then None
      else Some (sum_list (drop (Suc i - n) (take (Suc i) (true_range df))) / real n))"
proof -
  assume i: "i < length df"
  then have m: "min (length df) (Suc i) = Suc i" by simp
  show ?thesis using i
    by (simp add: atr_def nth_rolling_mean take_map window_mean_Some m)
qed

lemma true_range_set_nonneg:
  assumes "df \<noteq> []" "low (hd df) \<le> high (hd df)"
  shows "\<forall>x\<in>set (true_range df). 0 \<le> x"
proof
  fix x assume "x \<in> set (true_range df)"
  then obtain i where i: "i < length df" "x = true_range df ! i"
    by (auto simp: in_set_conv_nth)
  show "0 \<le> x"
  proof (cases i)
    case 0
    then show ?thesis using assms i by (cases df) (simp_all add: true_range_def)
  next
    case (Suc j)
    then show ?thesis using i true_range_nonneg [of i df] by simp
  qed
qed

subsection \<open>relative strength index\<close>

lemma ewm_from_nonneg:
  "0 \<le> a \<Longrightarrow> a \<le> 1 \<Longrightarrow> 0 \<le> y \<Longrightarrow> \<forall>x\<in>set xs. 0 \<le> x \<Longrightarrow> \<forall>z\<in>set (ewm_from a y xs). 0 \<le> z"
proof (induction xs arbitrary: y)
  case Nil
  then show ?case by simp
next
  case (Cons x xs)
  have "0 \<le> (1 - a) * y + a * x" using Cons.prems by simp
  with Cons.prems Cons.IH [of "(1 - a) * y + a * x"] show ?case by simp
qed

lemma ewm_mean_nonneg:
  "0 \<le> a \<Longrightarrow> a \<le> 1 \<Longrightarrow> \<forall>x\<in>set xs. 0 \<le> x \<Longrightarrow> \<forall>z\<in>set (ewm_mean a xs). 0 \<le> z"
proof (cases xs)
  case Nil
  then show ?thesis by simp
next
  case (Cons x ys)
  assume a: "0 \<le> a" "a \<le> 1" and xs: "\<forall>x\<in>set xs. 0 \<le> x"
  have "\<forall>z\<in>set (ewm_from a x ys). 0 \<le> z"
    using a xs Cons by (intro ewm_from_nonneg) simp_all
  then show ?thesis using xs Cons by simp
qed

lemma gains_nonneg: "\<forall>x\<in>set (gains s). 0 \<le> x"
  by (auto simp: gains_def split: option.splits)

lemma losses_nonneg: "\<forall>x\<in>set (losses s). 0 \<le> x"
  by (auto simp: losses_def split: option.splits)

lemma avg_gain_nonneg: "0 < n \<Longrightarrow> i < length s \<Longrightarrow> 0 \<le> avg_gain s n ! i"
  using ewm_mean_nonneg [of "1 / real n" "gains s"] gains_nonneg [of s]
  by (simp add: avg_gain_def)

lemma avg_loss_nonneg: "0 < n \<Longrightarrow> i < length s \<Longrightarrow> 0 \<le> avg_loss s n ! i"
  using ewm_mean_nonneg [of "1 / real n" "losses s"] losses_nonneg [of s]
  by (simp add: avg_loss_def)

lemma rsi_value_None_iff: "rsi_value ru rd = None \<longleftrightarrow> rd = 0"
  by (simp add: rsi_value_def)

lemma rsi_value_range:
  assumes "0 \<le> ru" "0 \<le> rd" "rsi_value ru rd = Some v"
  shows "0 \<le> v \<and> v < 100"
proof -
  have rd: "0 < rd" using assms by (auto simp: rsi_value_def split: if_splits)
  have v: "v = 100 - 100 / (1 + ru / rd)" using assms by (auto simp: rsi_value_def split: if_splits)
  have q: "0 \<le> ru / rd" using assms rd by simp
  then have "100 / (1 + ru / rd) \<le> 100" by (simp add: divide_le_eq)
  moreover have "0 < 100 / (1 + ru / rd)" using q by (simp add: add_nonneg_pos add.commute)
  ultimately show ?thesis unfolding v by simp
qed

lemma rsi_nth:
  "rsi s n = Inr r \<Longrightarrow> i < length s \<Longrightarrow> r ! i = rsi_value (avg_gain s n ! i) (avg_loss s n ! i)"
  by (auto simp: rsi_def split: if_splits)

lemma rsi_length: "rsi s n = Inr r \<Longrightarrow> length r = length s"
  by (auto simp: rsi_def split: if_splits)

lemma rsi_last:
  "rsi s n = Inr r \<Longrightarrow> s \<noteq> [] \<Longrightarrow> last r = rsi_value (last (avg_gain s n)) (last (avg_loss s n))"
  by (auto simp: rsi_def last_rsi_values split: if_splits)

lemma last_rsi_range:
  assumes "rsi s n = Inr r" "s \<noteq> []" "last r = Some v"
  shows "0 \<le> v \<and> v < 100"
proof -
  have n: "0 < n" using assms by (auto simp: rsi_def split: if_splits)
  have "0 \<le> last (avg_gain s n)" "0 \<le> last (avg_loss s n)"
    using assms(2) n by (simp_all add: last_conv_nth avg_gain_nonneg avg_loss_nonneg)
  moreover have "rsi_value (last (avg_gain s n)) (last (avg_loss s n)) = Some v"
    using rsi_last [OF assms(1,2)] assms(3) by simp
  ultimately show ?thesis by (rule rsi_value_range)
qed

section \<open>What the strategies return\<close>

lemmas config_values =
  UPTREND_RSI_MIN_def DOWNTREND_RSI_MAX_def MR_RSI2_MAX_def MR_RSI2_MIN_def MR_TREND_MA_def
  LT_SMA_WEEKS_def LT_RSI_MIN_def LT_MIN_WEEKS_def RISK_MULT_def REWARD_MULT_def
  LT_STOP_ATR_MULT_def LT_TARGET_ATR_MULT_def

subsection \<open>what an admitted plan is made of\<close>

lemma trend_pullback_long_admitted:
  assumes "strat_trend_pullback_long df = Inr (Some p)"
  shows "\<exists>a sc. last (atr (rows df) 14) = Some a \<and> 0 \<le> a \<and>
           p = plan_dict (high (last (rows df)) + 0.05) (high (last (rows df)) + 0.05 - a)
                 (high (last (rows df)) + 0.05 + 1.8 * a) (1.8 * a / max a (1 / 1000000))
                 ''Uptrend, breakout of prior high.'' ''TrendPullbackLong'' ''bullish'' ''short'' sc"
proof -
  let ?c = "map close (rows df)"
  from assms obtain rs where rs: "rsi ?c 14 = Inr rs" and ne: "rows df \<noteq> []"
    by (auto simp: strat_trend_pullback_long_def split: sum.splits if_splits)
  from assms rs ne obtain s r a where
    v: "last (sma ?c 200) = Some s" "last rs = Some r" "last (atr (rows df) 14) = Some a"
    by (auto simp: strat_trend_pullback_long_def Let_def split: option.splits)
  from assms rs ne v obtain sc where
    p: "p = plan_dict (high (last (rows df)) + 0.05) (high (last (rows df)) + 0.05 - a)
                 (high (last (rows df)) + 0.05 + 1.8 * a) (1.8 * a / max a (1 / 1000000))
                 ''Uptrend, breakout of prior high.'' ''TrendPullbackLong'' ''bullish'' ''short'' sc"
    by (auto simp: strat_trend_pullback_long_def Let_def config_values split: if_splits)
  have "200 \<le> length ?c" using last_sma_Some_length [OF _ v(1)] ne by simp
  then have "0 \<le> a" using last_atr_nonneg [OF v(3) ne] by simp
  then show ?thesis using v p by blast
qed

lemma trend_pullback_short_admitted:
  assumes "strat_trend_pullback_short df = Inr (Some p)"
  shows "\<exists>a sc. last (atr (rows df) 14) = Some a \<and> 0 \<le> a \<and>
           p = plan_dict (low (last (rows df)) - 0.05) (low (last (rows df)) - 0.05 + a)
                 (low (last (rows df)) - 0.05 - 1.8 * a) (1.8 * a / max a (1 / 1000000))
                 ''Downtrend, breakdown of prior low.'' ''TrendPullbackShort'' ''bearish'' ''short'' sc"
proof -
  let ?c = "map close (rows df)"
  from assms obtain rs where rs: "rsi ?c 14 = Inr rs" and ne: "rows df \<noteq> []"
    by (auto simp: strat_trend_pullback_short_def split: sum.splits if_splits)
  from assms rs ne obtain s r a where
    v: "last (sma ?c 200) = Some s" "last rs = Some r" "last (atr (rows df) 14) = Some a"
    by (auto simp: strat_trend_pullback_short_def Let_def split: option.splits)
  from assms rs ne v obtain sc where
    p: "p = plan_dict (low (last (rows df)) - 0.05) (low (last (rows df)) - 0.05 + a)
                 (low (last (rows df)) - 0.05 - 1.8 * a) (1.8 * a / max a (1 / 1000000))
                 ''Downtrend, breakdown of prior low.'' ''TrendPullbackShort'' ''bearish'' ''short'' sc"
    by (auto simp: strat_trend_pullback_short_def Let_def config_values split: if_splits)
  have "200 \<le> length ?c" using last_sma_Some_length [OF _ v(1)] ne by simp
  then have "0 \<le> a" using last_atr_nonneg [OF v(3) ne] by simp
  then show ?thesis using v p by blast
qed

lemma mean_reversion_long_admitted:
  assumes "strat_mean_reversion_long df = Inr (Some p)"
  shows "\<exists>a m sc. last (atr (rows df) 14) = Some a \<and> 0 \<le> a \<and>
           last (sma (map close (rows df)) 5) = Some m \<and> rows df \<noteq> [] \<and>
           p = plan_dict (close (last (rows df))) (close (last (rows df)) - a) m
                 ((m - close (last (rows df))) / max a (1 / 1000000))
                 ''RSI(2) oversold, snapback to 5SMA.'' ''MeanReversionLong'' ''bullish'' ''short'' sc"
proof -
  let ?c = "map close (rows df)"
  from assms obtain rs2 rs where rs: "rsi ?c 2 = Inr rs2" "rsi ?c 14 = Inr rs" and ne: "rows df \<noteq> []"
    by (auto simp: strat_mean_reversion_long_def split: sum.splits if_splits)
  from assms rs ne obtain m where m: "last (sma ?c 5) = Some m"
    by (auto simp: strat_mean_reversion_long_def Let_def split: if_splits)
  from assms rs ne m obtain s r a where
    v: "last (sma ?c 200) = Some s" "last rs2 = Some r" "last (atr (rows df) 14) = Some a"
    by (auto simp: strat_mean_reversion_long_def Let_def MR_TREND_MA_def split: option.splits)
  from assms rs ne m v obtain sc where
    p: "p = plan_dict (close (last (rows df))) (close (last (rows df)) - a) m
                 ((m - close (last (rows df))) / max a (1 / 1000000))
                 ''RSI(2) oversold, snapback to 5SMA.'' ''MeanReversionLong'' ''bullish'' ''short'' sc"
    by (auto simp: strat_mean_reversion_long_def Let_def config_values last_map split: if_splits)
  have "200 \<le> length ?c" using last_sma_Some_length [OF _ v(1)] ne by simp
  then have "0 \<le> a" using last_atr_nonneg [OF v(3) ne] by simp
  then show ?thesis using v m p ne by blast
qed

lemma mean_reversion_short_admitted:
  assumes "strat_mean_reversion_short df = Inr (Some p)"
  shows "\<exists>a m sc. last (atr (rows df) 14) = Some a \<and> 0 \<le> a \<and>
           last (sma (map close (rows df)) 5) = Some m \<and> rows df \<noteq> [] \<and>
           p = plan_dict (close (last (rows df))) (close (last (rows df)) + a) m
                 ((close (last (rows df)) - m) / max a (1 / 1000000))
                 ''RSI(2) overbought, drop to 5SMA.'' ''MeanReversionShort'' ''bearish'' ''short'' sc"
proof -
  let ?c = "map close (rows df)"
  from assms obtain rs2 rs where rs: "rsi ?c 2 = Inr rs2" "rsi ?c 14 = Inr rs" and ne: "rows df \<noteq> []"
    by (auto simp: strat_mean_reversion_short_def split: sum.splits if_splits)
  from assms rs ne obtain m where m: "last (sma ?c 5) = Some m"
    by (auto simp: strat_mean_reversion_short_def Let_def split: if_splits)
  from assms rs ne m obtain s r a where
    v: "last (sma ?c 200) = Some s" "last rs2 = Some r" "last (atr (rows df) 14) = Some a"
    by (auto simp: strat_mean_reversion_short_def Let_def MR_TREND_MA_def split: option.splits)
  from assms rs ne m v obtain sc where
    p: "p = plan_dict (close (last (rows df))) (close (last (rows df)) + a) m
                 ((close (last (rows df)) - m) / max a (1 / 1000000))
                 ''RSI(2) overbought, drop to 5SMA.'' ''MeanReversionShort'' ''bearish'' ''short'' sc"
    by (auto simp: strat_mean_reversion_short_def Let_def config_values last_map split: if_splits)
  have "200 \<le> length ?c" using last_sma_Some_length [OF _ v(1)] ne by simp
  then have "0 \<le> a" using last_atr_nonneg [OF v(3) ne] by simp
  then show ?thesis using v m p ne by blast
qed

lemma momentum_admitted:
  assumes "momentum_info_plan df = Inr (Some p)"
  shows "\<exists>a. last (atr (rows df) 14) = Some a \<and> 0 \<le> a \<and> rows df \<noteq> [] \<and>
           (let e = round2 (close (last (rows df))) in
            (\<exists>sc. p = plan_dict e (round2 (e - a)) (round2 (e + 1.8 * a))
                   ((round2 (e + 1.8 * a) - e) / max (e - round2 (e - a)) (1 / 1000000))
                   ''20d momentum up.'' ''MomentumInfo'' ''bullish'' ''short'' sc) \<or>
            (\<exists>sc. p = plan_dict e (round2 (e + a)) (round2 (e - 1.8 * a))
                   ((e - round2 (e - 1.8 * a)) / max (round2 (e + a) - e) (1 / 1000000))
                   ''20d momentum down.'' ''MomentumInfo'' ''bearish'' ''short'' sc))"
proof -
  from assms have ne: "rows df \<noteq> []"
    by (auto simp: momentum_info_plan_def split: if_splits)
  from assms ne obtain a where a: "last (atr (rows df) 14) = Some a"
    by (auto simp: momentum_info_plan_def Let_def split: option.splits)
  from assms ne a have len: "21 \<le> length (rows df)"
    by (auto simp: momentum_info_plan_def Let_def split: if_splits)
  then have a0: "0 \<le> a" using last_atr_nonneg [OF a ne] by simp
  from assms ne a len have
    "(let e = round2 (close (last (rows df))) in
            (\<exists>sc. p = plan_dict e (round2 (e - a)) (round2 (e + 1.8 * a))
                   ((round2 (e + 1.8 * a) - e) / max (e - round2 (e - a)) (1 / 1000000))
                   ''20d momentum up.'' ''MomentumInfo'' ''bullish'' ''short'' sc) \<or>
            (\<exists>sc. p = plan_dict e (round2 (e + a)) (round2 (e - 1.8 * a))
                   ((e - round2 (e - 1.8 * a)) / max (round2 (e + a) - e) (1 / 1000000))
                   ''20d momentum down.'' ''MomentumInfo'' ''bearish'' ''short'' sc))"
    by (auto simp: momentum_info_plan_def Let_def config_values last_map split: if_splits)
  then show ?thesis using a a0 ne by blast
qed

lemma weekly_admitted:
  assumes "invest_trend_weekly_long df = Inr (Some p)"
  shows "\<exists>w a sc. resample_weekly df = Inr w \<and> 60 \<le> length w \<and>
           last (atr w 14) = Some a \<and> 0 \<le> a \<and>
           p = plan_dict (close (last w)) (close (last w) - 2 * a) (close (last w) + 4 * a)
                 (4 * a / max (2 * a) (1 / 1000000))
                 ''Weekly uptrend (close>SMA40, EMA10>EMA30, RSIw>55). Position trade.''
                 ''WeeklyTrendLong'' ''bullish'' ''long'' sc"
proof -
  from assms obtain w where w: "resample_weekly df = Inr w"
    by (auto simp: invest_trend_weekly_long_def split: sum.splits)
  from assms w have len: "60 \<le> length w"
    by (auto simp: invest_trend_weekly_long_def LT_MIN_WEEKS_def split: if_splits)
  then have ne: "w \<noteq> []" by auto
  let ?c = "map close w"
  from assms w len obtain rs where rs: "rsi ?c 14 = Inr rs"
    by (auto simp: invest_trend_weekly_long_def LT_MIN_WEEKS_def split: sum.splits)
  from assms w len rs obtain s r a where
    v: "last (sma ?c 40) = Some s" "last rs = Some r" "last (atr w 14) = Some a"
    by (auto simp: invest_trend_weekly_long_def Let_def LT_MIN_WEEKS_def LT_SMA_WEEKS_def split: option.splits)
  from assms w len rs v ne obtain sc where
    p: "p = plan_dict (close (last w)) (close (last w) - 2 * a) (close (last w) + 4 * a)
                 (4 * a / max (2 * a) (1 / 1000000))
                 ''Weekly uptrend (close>SMA40, EMA10>EMA30, RSIw>55). Position trade.''
                 ''WeeklyTrendLong'' ''bullish'' ''long'' sc"
    by (auto simp: invest_trend_weekly_long_def Let_def config_values last_map split: if_splits)
  have "0 \<le> a" using last_atr_nonneg [OF v(3) ne] len by simp
  then show ?thesis using w len v p by blast
qed

lemma plan_dict_sel [simp]:
  "entry (plan_dict e s t r w n d h sc) = round2 e"
  "stop (plan_dict e s t r w n d h sc) = round2 s"
  "target (plan_dict e s t r w n d h sc) = round2 t"
  "rr (plan_dict e s t r w n d h sc) = round2 r"
  "direction (plan_dict e s t r w n d h sc) = d"
  "horizon (plan_dict e s t r w n d h sc) = h"
  by (simp_all add: plan_dict_def)

lemma bullish_levels_ordered:
  assumes "0 \<le> x" "0 \<le> y"
  shows "weakly_ordered (plan_dict e (e - x) (e + y) r w n ''bullish'' h sc)"
    and "1 / 100 < x \<Longrightarrow> 1 / 100 < y \<Longrightarrow> strictly_ordered (plan_dict e (e - x) (e + y) r w n ''bullish'' h sc)"
  using assms by (simp_all add: weakly_ordered_def strictly_ordered_def round2_mono round2_strict)

lemma bearish_levels_ordered:
  assumes "0 \<le> x" "0 \<le> y"
  shows "weakly_ordered (plan_dict e (e + x) (e - y) r w n ''bearish'' h sc)"
    and "1 / 100 < x \<Longrightarrow> 1 / 100 < y \<Longrightarrow> strictly_ordered (plan_dict e (e + x) (e - y) r w n ''bearish'' h sc)"
  using assms by (simp_all add: weakly_ordered_def strictly_ordered_def round2_mono round2_strict)

lemma round2_around_rounded:
  "0 \<le> x \<Longrightarrow> round2 (round2 c - x) \<le> round2 c"
  "0 \<le> x \<Longrightarrow> round2 c \<le> round2 (round2 c + x)"
  "1 / 100 < x \<Longrightarrow> round2 (round2 c - x) < round2 c"
  "1 / 100 < x \<Longrightarrow> round2 c < round2 (round2 c + x)"
  using round2_mono [of "round2 c - x" "round2 c"] round2_mono [of "round2 c" "round2 c + x"]
    round2_strict [of "round2 c - x" "round2 c"] round2_strict [of "round2 c" "round2 c + x"]
  by simp_all

lemma bullish_rounded_levels_ordered:
  assumes "0 \<le> x" "0 \<le> y"
  shows "weakly_ordered (plan_dict (round2 c) (round2 (round2 c - x)) (round2 (round2 c + y)) r w n ''bullish'' h sc)"
    and "1 / 100 < x \<Longrightarrow> 1 / 100 < y \<Longrightarrow>
         strictly_ordered (plan_dict (round2 c) (round2 (round2 c - x)) (round2 (round2 c + y)) r w n ''bullish'' h sc)"
  using assms by (simp_all add: weakly_ordered_def strictly_ordered_def round2_around_rounded)

lemma bearish_rounded_levels_ordered:
  assumes "0 \<le> x" "0 \<le> y"
  shows "weakly_ordered (plan_dict (round2 c) (round2 (round2 c + x)) (round2 (round2 c - y)) r w n ''bearish'' h sc)"
    and "1 / 100 < x \<Longrightarrow> 1 / 100 < y \<Longrightarrow>
         strictly_ordered (plan_dict (round2 c) (round2 (round2 c + x)) (round2 (round2 c - y)) r w n ''bearish'' h sc)"
  using assms by (simp_all add: weakly_ordered_def strictly_ordered_def round2_around_rounded)

lemma trend_pullback_long_ordered:
  assumes h: "strat_trend_pullback_long df = Inr (Some p)"
  shows "direction p = ''bullish'' \<and> weakly_ordered p \<and>
      (last (atr (rows df) 14) = Some atr14 \<and> 0.01 < atr14 \<longrightarrow> strictly_ordered p)"
proof (intro conjI)
  from trend_pullback_long_admitted [OF h] obtain a sc where a: "last (atr (rows df) 14) = Some a" "0 \<le> a"
    and p: "p = plan_dict (high (last (rows df)) + 0.05) (high (last (rows df)) + 0.05 - a)
                 (high (last (rows df)) + 0.05 + 1.8 * a) (1.8 * a / max a (1 / 1000000))
                 ''Uptrend, breakout of prior high.'' ''TrendPullbackLong'' ''bullish'' ''short'' sc"
    by blast
  show "direction p = ''bullish''" by (simp add: p)
  show "weakly_ordered p" unfolding p using a(2) by (intro bullish_levels_ordered) simp_all
  show "last (atr (rows df) 14) = Some atr14 \<and> 0.01 < atr14 \<longrightarrow> strictly_ordered p"
  proof (intro impI)
    assume "last (atr (rows df) 14) = Some atr14 \<and> 0.01 < atr14"
    then have "1 / 100 < a" "1 / 100 < 1.8 * a" using a(1) by simp_all
    then show "strictly_ordered p" unfolding p using a(2) by (intro bullish_levels_ordered) simp_all
  qed
qed

lemma trend_pullback_short_ordered:
  assumes h: "strat_trend_pullback_short df = Inr (Some p)"
  shows "direction p = ''bearish'' \<and> weakly_ordered p \<and>
      (last (atr (rows df) 14) = Some atr14 \<and> 0.01 < atr14 \<longrightarrow> strictly_ordered p)"
proof (intro conjI)
  from trend_pullback_short_admitted [OF h] obtain a sc where a: "last (atr (rows df) 14) = Some a" "0 \<le> a"
    and p: "p = plan_dict (low (last (rows df)) - 0.05) (low (last (rows df)) - 0.05 + a)
                 (low (last (rows df)) - 0.05 - 1.8 * a) (1.8 * a / max a (1 / 1000000))
                 ''Downtrend, breakdown of prior low.'' ''TrendPullbackShort'' ''bearish'' ''short'' sc"
    by blast
  show "direction p = ''bearish''" by (simp add: p)
  show "weakly_ordered p" unfolding p using a(2) by (intro bearish_levels_ordered) simp_all
  show "last (atr (rows df) 14) = Some atr14 \<and> 0.01 < atr14 \<longrightarrow> strictly_ordered p"
  proof (intro impI)
    assume "last (atr (rows df) 14) = Some atr14 \<and> 0.01 < atr14"
    then have "1 / 100 < a" "1 / 100 < 1.8 * a" using a(1) by simp_all
    then show "strictly_ordered p" unfolding p using a(2) by (intro bearish_levels_ordered) simp_all
  qed
qed

lemma momentum_ordered:
  assumes h: "momentum_info_plan df = Inr (Some p)"
  shows "direction p \<in> {''bullish'', ''bearish''} \<and> weakly_ordered p \<and>
      (last (atr (rows df) 14) = Some atr14 \<and> 0.01 < atr14 \<longrightarrow> strictly_ordered p)"
proof (intro conjI)
  from momentum_admitted [OF h] obtain a where a: "last (atr (rows df) 14) = Some a" "0 \<le> a"
    and p0: "(let e = round2 (close (last (rows df))) in
            (\<exists>sc. p = plan_dict e (round2 (e - a)) (round2 (e + 1.8 * a))
                   ((round2 (e + 1.8 * a) - e) / max (e - round2 (e - a)) (1 / 1000000))
                   ''20d momentum up.'' ''MomentumInfo'' ''bullish'' ''short'' sc) \<or>
            (\<exists>sc. p = plan_dict e (round2 (e + a)) (round2 (e - 1.8 * a))
                   ((e - round2 (e - 1.8 * a)) / max (round2 (e + a) - e) (1 / 1000000))
                   ''20d momentum down.'' ''MomentumInfo'' ''bearish'' ''short'' sc))"
    by blast
  have p: "(\<exists>sc. p = plan_dict (round2 (close (last (rows df))))
                   (round2 (round2 (close (last (rows df))) - a))
                   (round2 (round2 (close (last (rows df))) + 1.8 * a))
                   ((round2 (round2 (close (last (rows df))) + 1.8 * a) - round2 (close (last (rows df)))) /
                      max (round2 (close (last (rows df))) - round2 (round2 (close (last (rows df))) - a)) (1 / 1000000))
                   ''20d momentum up.'' ''MomentumInfo'' ''bullish'' ''short'' sc) \<or>
            (\<exists>sc. p = plan_dict (round2 (close (last (rows df))))
                   (round2 (round2 (close (last (rows df))) + a))
                   (round2 (round2 (close (last (rows df))) - 1.8 * a))
                   ((round2 (close (last (rows df))) - round2 (round2 (close (last (rows df))) - 1.8 * a)) /
                      max (round2 (round2 (close (last (rows df))) + a) - round2 (close (last (rows df)))) (1 / 1000000))
                   ''20d momentum down.'' ''MomentumInfo'' ''bearish'' ''short'' sc)"
    using p0 unfolding Let_def .
  have a18: "0 \<le> 1.8 * a" using a(2) by simp
  from p show "direction p \<in> {''bullish'', ''bearish''}"
    by (elim disjE exE) simp_all
  from p show "weakly_ordered p"
  proof (elim disjE exE)
    fix sc assume "p = plan_dict (round2 (close (last (rows df))))
                   (round2 (round2 (close (last (rows df))) - a))
                   (round2 (round2 (close (last (rows df))) + 1.8 * a))
                   ((round2 (round2 (close (last (rows df))) + 1.8 * a) - round2 (close (last (rows df)))) /
                      max (round2 (close (last (rows df))) - round2 (round2 (close (last (rows df))) - a)) (1 / 1000000))
                   ''20d momentum up.'' ''MomentumInfo'' ''bullish'' ''short'' sc"
    then show ?thesis using bullish_rounded_levels_ordered(1) [OF a(2) a18] by simp
  next
    fix sc assume "p = plan_dict (round2 (close (last (rows df))))
                   (round2 (round2 (close (last (rows df))) + a))
                   (round2 (round2 (close (last (rows df))) - 1.8 * a))
                   ((round2 (close (last (rows df))) - round2 (round2 (close (last (rows df))) - 1.8 * a)) /
                      max (round2 (round2 (close (last (rows df))) + a) - round2 (close (last (rows df)))) (1 / 1000000))
                   ''20d momentum down.'' ''MomentumInfo'' ''bearish'' ''short'' sc"
    then show ?thesis using bearish_rounded_levels_ordered(1) [OF a(2) a18] by simp
  qed
  show "last (atr (rows df) 14) = Some atr14 \<and> 0.01 < atr14 \<longrightarrow> strictly_ordered p"
  proof (intro impI)
    assume "last (atr (rows df) 14) = Some atr14 \<and> 0.01 < atr14"
    then have big: "1 / 100 < a" "1 / 100 < 1.8 * a" using a(1) by simp_all
    from p show "strictly_ordered p"
    proof (elim disjE exE)
      fix sc assume "p = plan_dict (round2 (close (last (rows df))))
                   (round2 (round2 (close (last (rows df))) - a))
                   (round2 (round2 (close (last (rows df))) + 1.8 * a))
                   ((round2 (round2 (close (last (rows df))) + 1.8 * a) - round2 (close (last (rows df)))) /
                      max (round2 (close (last (rows df))) - round2 (round2 (close (last (rows df))) - a)) (1 / 1000000))
                   ''20d momentum up.'' ''MomentumInfo'' ''bullish'' ''short'' sc"
      then show ?thesis using bullish_rounded_levels_ordered(2) [OF a(2) a18 big] by simp
    next
      fix sc assume "p = plan_dict (round2 (close (last (rows df))))
                   (round2 (round2 (close (last (rows df))) + a))
                   (round2 (round2 (close (last (rows df))) - 1.8 * a))
                   ((round2 (close (last (rows df))) - round2 (round2 (close (last (rows df))) - 1.8 * a)) /
                      max (round2 (round2 (close (last (rows df))) + a) - round2 (close (last (rows df)))) (1 / 1000000))
                   ''20d momentum down.'' ''MomentumInfo'' ''bearish'' ''short'' sc"
      then show ?thesis using bearish_rounded_levels_ordered(2) [OF a(2) a18 big] by simp
    qed
  qed
qed

lemma weekly_ordered:
  assumes h: "invest_trend_weekly_long df = Inr (Some p)"
  shows "direction p = ''bullish'' \<and> weakly_ordered p \<and>
      (resample_weekly df = Inr w \<and> last (atr w 14) = Some atr14 \<and> 0.01 < atr14 \<longrightarrow> strictly_ordered p)"
proof (intro conjI)
  from weekly_admitted [OF h] obtain w0 a sc where w: "resample_weekly df = Inr w0"
    and a: "last (atr w0 14) = Some a" "0 \<le> a"
    and p: "p = plan_dict (close (last w0)) (close (last w0) - 2 * a) (close (last w0) + 4 * a)
                 (4 * a / max (2 * a) (1 / 1000000))
                 ''Weekly uptrend (close>SMA40, EMA10>EMA30, RSIw>55). Position trade.''
                 ''WeeklyTrendLong'' ''bullish'' ''long'' sc"
    by blast
  show "direction p = ''bullish''" by (simp add: p)
  show "weakly_ordered p" unfolding p using a(2) by (intro bullish_levels_ordered) simp_all
  show "resample_weekly df = Inr w \<and> last (atr w 14) = Some atr14 \<and> 0.01 < atr14 \<longrightarrow> strictly_ordered p"
  proof (intro impI)
    assume "resample_weekly df = Inr w \<and> last (atr w 14) = Some atr14 \<and> 0.01 < atr14"
    then have "1 / 100 < 2 * a" "1 / 100 < 4 * a" using a(1) w by simp_all
    then show "strictly_ordered p" unfolding p using a(2) by (intro bullish_levels_ordered) simp_all
  qed
qed

lemma mean_reversion_long_ordered:
  assumes h: "strat_mean_reversion_long df = Inr (Some p)"
  shows "direction p = ''bullish'' \<and> stop_side_ordered p \<and>
      (\<exists>m. last (sma (map close (rows df)) 5) = Some m \<and> target p = round2 m) \<and>
      (last (sma (map close (rows df)) 5) = Some sma5 \<and> close (last (rows df)) \<le> sma5 \<longrightarrow>
         weakly_ordered p) \<and>
      (last (atr (rows df) 14) = Some atr14 \<and> 0.01 < atr14 \<longrightarrow> stop p < entry p) \<and>
      (last (sma (map close (rows df)) 5) = Some sma5 \<and> close (last (rows df)) + 0.01 < sma5 \<and>
       last (atr (rows df) 14) = Some atr14 \<and> 0.01 < atr14 \<longrightarrow> strictly_ordered p)"
proof (intro conjI)
  from mean_reversion_long_admitted [OF h] obtain a m sc where a: "last (atr (rows df) 14) = Some a" "0 \<le> a"
    and m: "last (sma (map close (rows df)) 5) = Some m"
    and p: "p = plan_dict (close (last (rows df))) (close (last (rows df)) - a) m
                 ((m - close (last (rows df))) / max a (1 / 1000000))
                 ''RSI(2) oversold, snapback to 5SMA.'' ''MeanReversionLong'' ''bullish'' ''short'' sc"
    by blast
  show "direction p = ''bullish''" by (simp add: p)
  show "stop_side_ordered p" unfolding p using a(2) by (simp add: stop_side_ordered_def round2_mono)
  show "\<exists>m. last (sma (map close (rows df)) 5) = Some m \<and> target p = round2 m"
    using m by (simp add: p)
  show "last (sma (map close (rows df)) 5) = Some sma5 \<and> close (last (rows df)) \<le> sma5 \<longrightarrow>
         weakly_ordered p"
  proof (intro impI)
    assume "last (sma (map close (rows df)) 5) = Some sma5 \<and> close (last (rows df)) \<le> sma5"
    then have "close (last (rows df)) \<le> m" using m by simp
    then show "weakly_ordered p" unfolding p using a(2)
      by (simp add: weakly_ordered_def round2_mono)
  qed
  show "last (atr (rows df) 14) = Some atr14 \<and> 0.01 < atr14 \<longrightarrow> stop p < entry p"
  proof (intro impI)
    assume "last (atr (rows df) 14) = Some atr14 \<and> 0.01 < atr14"
    then have "1 / 100 < a" using a(1) by simp
    then show "stop p < entry p" unfolding p by (simp add: round2_strict)
  qed
  show "last (sma (map close (rows df)) 5) = Some sma5 \<and> close (last (rows df)) + 0.01 < sma5 \<and>
       last (atr (rows df) 14) = Some atr14 \<and> 0.01 < atr14 \<longrightarrow> strictly_ordered p"
  proof (intro impI)
    assume "last (sma (map close (rows df)) 5) = Some sma5 \<and> close (last (rows df)) + 0.01 < sma5 \<and>
       last (atr (rows df) 14) = Some atr14 \<and> 0.01 < atr14"
    then have "close (last (rows df)) + 1 / 100 < m" "1 / 100 < a" using m a(1) by simp_all
    then show "strictly_ordered p" unfolding p
      by (simp add: strictly_ordered_def round2_strict)
  qed
qed

lemma mean_reversion_short_ordered:
  assumes h: "strat_mean_reversion_short df = Inr (Some p)"
  shows "direction p = ''bearish'' \<and> stop_side_ordered p \<and>
      (\<exists>m. last (sma (map close (rows df)) 5) = Some m \<and> target p = round2 m) \<and>
      (last (sma (map close (rows df)) 5) = Some sma5 \<and> sma5 \<le> close (last (rows df)) \<longrightarrow>
         weakly_ordered p) \<and>
      (last (atr (rows df) 14) = Some atr14 \<and> 0.01 < atr14 \<longrightarrow> entry p < stop p) \<and>
      (last (sma (map close (rows df)) 5) = Some sma5 \<and> sma5 + 0.01 < close (last (rows df)) \<and>
       last (atr (rows df) 14) = Some atr14 \<and> 0.01 < atr14 \<longrightarrow> strictly_ordered p)"
proof (intro conjI)
  from mean_reversion_short_admitted [OF h] obtain a m sc where a: "last (atr (rows df) 14) = Some a" "0 \<le> a"
    and m: "last (sma (map close (rows df)) 5) = Some m"
    and p: "p = plan_dict (close (last (rows df))) (close (last (rows df)) + a) m
                 ((close (last (rows df)) - m) / max a (1 / 1000000))
                 ''RSI(2) overbought, drop to 5SMA.'' ''MeanReversionShort'' ''bearish'' ''short'' sc"
    by blast
  show "direction p = ''bearish''" by (simp add: p)
  show "stop_side_ordered p" unfolding p using a(2) by (simp add: stop_side_ordered_def round2_mono)
  show "\<exists>m. last (sma (map close (rows df)) 5) = Some m \<and> target p = round2 m"
    using m by (simp add: p)
  show "last (sma (map close (rows df)) 5) = Some sma5 \<and> sma5 \<le> close (last (rows df)) \<longrightarrow>
         weakly_ordered p"
  proof (intro impI)
    assume "last (sma (map close (rows df)) 5) = Some sma5 \<and> sma5 \<le> close (last (rows df))"
    then have "m \<le> close (last (rows df))" using m by simp
    then show "weakly_ordered p" unfolding p using a(2)
      by (simp add: weakly_ordered_def round2_mono)
  qed
  show "last (atr (rows df) 14) = Some atr14 \<and> 0.01 < atr14 \<longrightarrow> entry p < stop p"
  proof (intro impI)
    assume "last (atr (rows df) 14) = Some atr14 \<and> 0.01 < atr14"
    then have "1 / 100 < a" using a(1) by simp
    then show "entry p < stop p" unfolding p by (simp add: round2_strict)
  qed
  show "last (sma (map close (rows df)) 5) = Some sma5 \<and> sma5 + 0.01 < close (last (rows df)) \<and>
       last (atr (rows df) 14) = Some atr14 \<and> 0.01 < atr14 \<longrightarrow> strictly_ordered p"
  proof (intro impI)
    assume "last (sma (map close (rows df)) 5) = Some sma5 \<and> sma5 + 0.01 < close (last (rows df)) \<and>
       last (atr (rows df) 14) = Some atr14 \<and> 0.01 < atr14"
    then have "m + 1 / 100 < close (last (rows df))" "1 / 100 < a" using m a(1) by simp_all
    then show "strictly_ordered p" unfolding p
      by (simp add: strictly_ordered_def round2_strict)
  qed
qed

lemma hd_true_range: "df \<noteq> [] \<Longrightarrow> hd (true_range df) = high (hd df) - low (hd df)"
  by (cases df) (simp_all add: true_range_def)

lemma rank_key_le_iff: "rank_key b \<le> rank_key a \<longleftrightarrow> lex_ge a b"
  by (auto simp: rank_key_def lex_ge_def ranking_score_def less_eq_prod_def split: option.splits)

lemma sorted_wrt_sort_desc: "sorted_wrt (\<lambda>a b. key b \<le> key a) (sort_desc key xs)"
proof -
  have "sorted (map key (sort_key key (rev xs)))" by (rule sorted_sort_key)
  then have "sorted_wrt (\<lambda>a b. key a \<le> key b) (sort_key key (rev xs))"
    by (simp add: sorted_map)
  then show ?thesis
    by (simp add: sort_desc_def sorted_wrt_rev)
qed

subsection \<open>the specified reward/risk ratio\<close>

lemma spec_rr_bullish: "s \<le> e \<Longrightarrow> e \<le> t \<Longrightarrow> spec_rr e s t = (t - e) / max (e - s) (1 / 1000000)"
  by (simp add: spec_rr_def)

lemma spec_rr_bearish: "e \<le> s \<Longrightarrow> t \<le> e \<Longrightarrow> spec_rr e s t = (e - t) / max (s - e) (1 / 1000000)"
  by (simp add: spec_rr_def abs_minus_commute)

lemma spec_rr_nonneg: "0 \<le> spec_rr e s t"
  by (simp add: spec_rr_def)

lemma built_from_levels_plan_dict:
  "r = spec_rr e s t \<Longrightarrow> built_from_levels (plan_dict e s t r w n d h sc) e s t"
  by (simp add: built_from_levels_def)

lemma built_from_levels_rr_nonneg: "built_from_levels p e s t \<Longrightarrow> 0 \<le> rr p"
  by (simp add: built_from_levels_def round2_nonneg spec_rr_nonneg)

lemma trend_pullback_long_rr:
  assumes h: "strat_trend_pullback_long df = Inr (Some p)"
  shows "\<exists>a. last (atr (rows df) 14) = Some a \<and>
           built_from_levels p (high (last (rows df)) + 0.05) (high (last (rows df)) + 0.05 - a)
             (high (last (rows df)) + 0.05 + 1.8 * a)"
proof -
  from trend_pullback_long_admitted [OF h] obtain a sc where a: "last (atr (rows df) 14) = Some a" "0 \<le> a"
    and p: "p = plan_dict (high (last (rows df)) + 0.05) (high (last (rows df)) + 0.05 - a)
                 (high (last (rows df)) + 0.05 + 1.8 * a) (1.8 * a / max a (1 / 1000000))
                 ''Uptrend, breakout of prior high.'' ''TrendPullbackLong'' ''bullish'' ''short'' sc"
    by blast
  have "built_from_levels p (high (last (rows df)) + 0.05) (high (last (rows df)) + 0.05 - a)
             (high (last (rows df)) + 0.05 + 1.8 * a)"
    unfolding p using a(2) by (intro built_from_levels_plan_dict) (simp add: spec_rr_bullish)
  then show ?thesis using a(1) by blast
qed

lemma trend_pullback_short_rr:
  assumes h: "strat_trend_pullback_short df = Inr (Some p)"
  shows "\<exists>a. last (atr (rows df) 14) = Some a \<and>
           built_from_levels p (low (last (rows df)) - 0.05) (low (last (rows df)) - 0.05 + a)
             (low (last (rows df)) - 0.05 - 1.8 * a)"
proof -
  from trend_pullback_short_admitted [OF h] obtain a sc where a: "last (atr (rows df) 14) = Some a" "0 \<le> a"
    and p: "p = plan_dict (low (last (rows df)) - 0.05) (low (last (rows df)) - 0.05 + a)
                 (low (last (rows df)) - 0.05 - 1.8 * a) (1.8 * a / max a (1 / 1000000))
                 ''Downtrend, breakdown of prior low.'' ''TrendPullbackShort'' ''bearish'' ''short'' sc"
    by blast
  have "built_from_levels p (low (last (rows df)) - 0.05) (low (last (rows df)) - 0.05 + a)
             (low (last (rows df)) - 0.05 - 1.8 * a)"
    unfolding p using a(2) by (intro built_from_levels_plan_dict) (simp add: spec_rr_bearish)
  then show ?thesis using a(1) by blast
qed

lemma weekly_rr:
  assumes h: "invest_trend_weekly_long df = Inr (Some p)"
  shows "\<exists>w a. resample_weekly df = Inr w \<and> last (atr w 14) = Some a \<and>
           built_from_levels p (close (last w)) (close (last w) - 2 * a) (close (last w) + 4 * a)"
proof -
  from weekly_admitted [OF h] obtain w a sc where w: "resample_weekly df = Inr w"
    and a: "last (atr w 14) = Some a" "0 \<le> a"
    and p: "p = plan_dict (close (last w)) (close (last w) - 2 * a) (close (last w) + 4 * a)
                 (4 * a / max (2 * a) (1 / 1000000))
                 ''Weekly uptrend (close>SMA40, EMA10>EMA30, RSIw>55). Position trade.''
                 ''WeeklyTrendLong'' ''bullish'' ''long'' sc"
    by blast
  have "built_from_levels p (close (last w)) (close (last w) - 2 * a) (close (last w) + 4 * a)"
    unfolding p using a(2) by (intro built_from_levels_plan_dict) (simp add: spec_rr_bullish)
  then show ?thesis using w a(1) by blast
qed

lemma mean_reversion_long_rr:
  assumes h: "strat_mean_reversion_long df = Inr (Some p)"
  shows "\<exists>a m. last (atr (rows df) 14) = Some a \<and> last (sma (map close (rows df)) 5) = Some m \<and>
           entry p = round2 (close (last (rows df))) \<and> stop p = round2 (close (last (rows df)) - a) \<and>
           target p = round2 m \<and>
           (close (last (rows df)) \<le> m \<longrightarrow>
              built_from_levels p (close (last (rows df))) (close (last (rows df)) - a) m)"
proof -
  from mean_reversion_long_admitted [OF h] obtain a m sc where a: "last (atr (rows df) 14) = Some a" "0 \<le> a"
    and m: "last (sma (map close (rows df)) 5) = Some m"
    and p: "p = plan_dict (close (last (rows df))) (close (last (rows df)) - a) m
                 ((m - close (last (rows df))) / max a (1 / 1000000))
                 ''RSI(2) oversold, snapback to 5SMA.'' ''MeanReversionLong'' ''bullish'' ''short'' sc"
    by blast
  have "close (last (rows df)) \<le> m \<longrightarrow>
          built_from_levels p (close (last (rows df))) (close (last (rows df)) - a) m"
    unfolding p using a(2) by (auto intro!: built_from_levels_plan_dict simp: spec_rr_bullish)
  moreover have "entry p = round2 (close (last (rows df)))" "stop p = round2 (close (last (rows df)) - a)"
    "target p = round2 m" by (simp_all add: p)
  ultimately show ?thesis using a(1) m by blast
qed

lemma mean_reversion_short_rr:
  assumes h: "strat_mean_reversion_short df = Inr (Some p)"
  shows "\<exists>a m. last (atr (rows df) 14) = Some a \<and> last (sma (map close (rows df)) 5) = Some m \<and>
           entry p = round2 (close (last (rows df))) \<and> stop p = round2 (close (last (rows df)) + a) \<and>
           target p = round2 m \<and>
           (m \<le> close (last (rows df)) \<longrightarrow>
              built_from_levels p (close (last (rows df))) (close (last (rows df)) + a) m)"
proof -
  from mean_reversion_short_admitted [OF h] obtain a m sc where a: "last (atr (rows df) 14) = Some a" "0 \<le> a"
    and m: "last (sma (map close (rows df)) 5) = Some m"
    and p: "p = plan_dict (close (last (rows df))) (close (last (rows df)) + a) m
                 ((close (last (rows df)) - m) / max a (1 / 1000000))
                 ''RSI(2) overbought, drop to 5SMA.'' ''MeanReversionShort'' ''bearish'' ''short'' sc"
    by blast
  have "m \<le> close (last (rows df)) \<longrightarrow>
          built_from_levels p (close (last (rows df))) (close (last (rows df)) + a) m"
    unfolding p using a(2) by (auto intro!: built_from_levels_plan_dict simp: spec_rr_bearish)
  moreover have "entry p = round2 (close (last (rows df)))" "stop p = round2 (close (last (rows df)) + a)"
    "target p = round2 m" by (simp_all add: p)
  ultimately show ?thesis using a(1) m by blast
qed

lemma momentum_rr:
  assumes h: "momentum_info_plan df = Inr (Some p)"
  shows "\<exists>a. last (atr (rows df) 14) = Some a \<and>
           (direction p = ''bullish'' \<and>
              built_from_levels p (round2 (close (last (rows df))))
                (round2 (round2 (close (last (rows df))) - a))
                (round2 (round2 (close (last (rows df))) + 1.8 * a)) \<or>
            direction p = ''bearish'' \<and>
              built_from_levels p (round2 (close (last (rows df))))
                (round2 (round2 (close (last (rows df))) + a))
                (round2 (round2 (close (last (rows df))) - 1.8 * a)))"
proof -
  let ?e = "round2 (close (last (rows df)))"
  from momentum_admitted [OF h] obtain a where a: "last (atr (rows df) 14) = Some a" "0 \<le> a"
    and p0: "(let e = round2 (close (last (rows df))) in
            (\<exists>sc. p = plan_dict e (round2 (e - a)) (round2 (e + 1.8 * a))
                   ((round2 (e + 1.8 * a) - e) / max (e - round2 (e - a)) (1 / 1000000))
                   ''20d momentum up.'' ''MomentumInfo'' ''bullish'' ''short'' sc) \<or>
            (\<exists>sc. p = plan_dict e (round2 (e + a)) (round2 (e - 1.8 * a))
                   ((e - round2 (e - 1.8 * a)) / max (round2 (e + a) - e) (1 / 1000000))
                   ''20d momentum down.'' ''MomentumInfo'' ''bearish'' ''short'' sc))"
    by blast
  have a18: "0 \<le> 1.8 * a" using a(2) by simp
  have up: "round2 (?e - a) \<le> ?e" "?e \<le> round2 (?e + 1.8 * a)"
    and down: "?e \<le> round2 (?e + a)" "round2 (?e - 1.8 * a) \<le> ?e"
    using round2_around_rounded(1,2) [OF a(2)] round2_around_rounded(1,2) [OF a18] by simp_all
  from p0 have "(\<exists>sc. p = plan_dict ?e (round2 (?e - a)) (round2 (?e + 1.8 * a))
                   ((round2 (?e + 1.8 * a) - ?e) / max (?e - round2 (?e - a)) (1 / 1000000))
                   ''20d momentum up.'' ''MomentumInfo'' ''bullish'' ''short'' sc) \<or>
            (\<exists>sc. p = plan_dict ?e (round2 (?e + a)) (round2 (?e - 1.8 * a))
                   ((?e - round2 (?e - 1.8 * a)) / max (round2 (?e + a) - ?e) (1 / 1000000))
                   ''20d momentum down.'' ''MomentumInfo'' ''bearish'' ''short'' sc)"
    unfolding Let_def .
  then have "direction p = ''bullish'' \<and>
              built_from_levels p ?e (round2 (?e - a)) (round2 (?e + 1.8 * a)) \<or>
            direction p = ''bearish'' \<and>
              built_from_levels p ?e (round2 (?e + a)) (round2 (?e - 1.8 * a))"
  proof (elim disjE exE)
    fix sc assume p: "p = plan_dict ?e (round2 (?e - a)) (round2 (?e + 1.8 * a))
                   ((round2 (?e + 1.8 * a) - ?e) / max (?e - round2 (?e - a)) (1 / 1000000))
                   ''20d momentum up.'' ''MomentumInfo'' ''bullish'' ''short'' sc"
    have "built_from_levels p ?e (round2 (?e - a)) (round2 (?e + 1.8 * a))"
      unfolding p using spec_rr_bullish [OF up] by (intro built_from_levels_plan_dict) simp
    then show ?thesis by (simp add: p)
  next
    fix sc assume p: "p = plan_dict ?e (round2 (?e + a)) (round2 (?e - 1.8 * a))
                   ((?e - round2 (?e - 1.8 * a)) / max (round2 (?e + a) - ?e) (1 / 1000000))
                   ''20d momentum down.'' ''MomentumInfo'' ''bearish'' ''short'' sc"
    have "built_from_levels p ?e (round2 (?e + a)) (round2 (?e - 1.8 * a))"
      unfolding p using spec_rr_bearish [OF down] by (intro built_from_levels_plan_dict) simp
    then show ?thesis by (simp add: p)
  qed
  then show ?thesis using a(1) by blast
qed

subsection \<open>weekly resampling\<close>

lemma week_bin_eq_iff: "week_bin d = k \<longleftrightarrow> 7 * k + 2 \<le> d \<and> d \<le> 7 * k + 8"
  unfolding week_bin_def by presburger

lemma week_bin_mono: "d \<le> d' \<Longrightarrow> week_bin d \<le> week_bin d'"
  unfolding week_bin_def by (simp add: zdiv_mono1)

lemma week_bin_label [simp]: "week_bin (week_label k) = k"
  by (simp add: week_bin_eq_iff week_label_def)

lemma monday_week:
  assumes "m mod 7 = 4"
  shows "7 * week_bin m + 2 = m - 2" and "week_label (week_bin m) = m + 4"
  using assms unfolding week_bin_def week_label_def by presburger+

lemma week_rows_eq_bin:
  assumes "m mod 7 = 4"
  shows "week_rows m rs = filter (\<lambda>r. week_bin (date r) = week_bin m) rs"
proof -
  have "(m - 2 \<le> d \<and> d \<le> m + 4) = (week_bin d = week_bin m)" for d
    using monday_week(1) [OF assms] by (simp add: week_bin_eq_iff) presburger
  then show ?thesis by (simp add: week_rows_def)
qed

lemma agg_week_date: "agg_week rs j = Some b \<Longrightarrow> date b = week_label j"
  by (auto simp: agg_week_def Let_def split: if_splits)

lemma filter_map_filter:
  assumes "\<And>j b. f j = Some b \<Longrightarrow> P b = Q j"
  shows "filter P (List.map_filter f xs) = List.map_filter f (filter Q xs)"
proof (induction xs)
  case Nil
  show ?case by (simp add: List.map_filter_simps)
next
  case (Cons x xs)
  show ?case
  proof (cases "f x")
    case None
    then show ?thesis using Cons by (simp add: List.map_filter_simps)
  next
    case (Some b)
    then show ?thesis using Cons assms [OF Some] by (simp add: List.map_filter_simps)
  qed
qed

lemma filter_eq_upto:
  assumes "lo \<le> k" "k \<le> hi"
  shows "filter (\<lambda>j. j = k) [lo..hi] = [k]"
proof -
  have "[lo..hi] = [lo..k - 1] @ k # [k + 1..hi]"
    using assms by (rule upto_split3)
  moreover have "filter (\<lambda>j. j = k) [lo..k - 1] = []" by (auto simp: filter_empty_conv)
  moreover have "filter (\<lambda>j. j = k) [k + 1..hi] = []" by (auto simp: filter_empty_conv)
  ultimately show ?thesis by simp
qed

lemma resample_weekly_week:
  assumes vol: "has_volume df" and mon: "m mod 7 = 4"
    and r: "r \<in> set (rows df)" "date r = m"
  shows "\<exists>w. resample_weekly df = Inr w \<and>
           filter (\<lambda>b. m - 2 \<le> date b \<and> date b \<le> m + 4) w =
             [\<lparr>date = m + 4, open_price = open_price (hd (week_rows m (rows df))),
               high = Max (set (map high (week_rows m (rows df)))),
               low = Min (set (map low (week_rows m (rows df)))),
               close = close (last (week_rows m (rows df))),
               volume = sum_list (map volume (week_rows m (rows df)))\<rparr>]"
proof -
  let ?rs = "rows df"
  let ?ds = "map date ?rs"
  let ?k = "week_bin m"
  let ?lo = "week_bin (Min (set ?ds))" and ?hi = "week_bin (Max (set ?ds))"
  let ?w = "List.map_filter (agg_week ?rs) [?lo..?hi]"
  have ne: "?rs \<noteq> []" using r(1) by auto
  then have w: "resample_weekly df = Inr ?w"
    using vol by (simp add: resample_weekly_def Let_def)
  have "m \<in> set ?ds" using r by force
  then have "Min (set ?ds) \<le> m" "m \<le> Max (set ?ds)" by simp_all
  then have bounds: "?lo \<le> ?k" "?k \<le> ?hi" by (simp_all add: week_bin_mono)
  have "r \<in> set (week_rows m ?rs)" using r by (simp add: week_rows_def)
  then have g: "week_rows m ?rs \<noteq> []" by auto
  have agg: "agg_week ?rs ?k =
      Some \<lparr>date = m + 4, open_price = open_price (hd (week_rows m ?rs)),
            high = Max (set (map high (week_rows m ?rs))),
            low = Min (set (map low (week_rows m ?rs))),
            close = close (last (week_rows m ?rs)),
            volume = sum_list (map volume (week_rows m ?rs))\<rparr>"
    using g unfolding week_rows_eq_bin [OF mon]
    by (simp add: agg_week_def Let_def monday_week(2) [OF mon])
  have range: "(m - 2 \<le> date b \<and> date b \<le> m + 4) = (j = ?k)" if "agg_week ?rs j = Some b" for j b
  proof -
    have "date b = week_label j" using that by (rule agg_week_date)
    then have "week_bin (date b) = j" by simp
    moreover have "(m - 2 \<le> date b \<and> date b \<le> m + 4) = (week_bin (date b) = ?k)"
      using monday_week(1) [OF mon] by (simp add: week_bin_eq_iff) presburger
    ultimately show ?thesis by simp
  qed
  have "filter (\<lambda>b. m - 2 \<le> date b \<and> date b \<le> m + 4) ?w =
      List.map_filter (agg_week ?rs) (filter (\<lambda>j. j = ?k) [?lo..?hi])"
    by (rule filter_map_filter) (rule range)
  also have "\<dots> = List.map_filter (agg_week ?rs) [?k]"
    by (simp only: filter_eq_upto [OF bounds])
  finally show ?thesis using w agg by (simp add: List.map_filter_simps)
qed

section \<open>The example frames\<close>

lemmas indicator_last =
  last_ema_flat_prefix last_avg_gain_flat_prefix last_avg_loss_flat_prefix
  last_sma last_atr last_rsi_values true_range_nth nth_dated map_close_dated last_dated
  nth_append

lemmas indicator_eval =
  ema_def avg_gain_def avg_loss_def gains_def losses_def diff_def rsi_value_def sum_list_replicate

lemmas strat_eval =
  rsi_Inr config_defs plan_dict_def quality_long_def quality_short_def round2_def round3_def
  round_half_even_def float_div_def

lemma frame_uptrend_rows:
  "rows frame_uptrend \<noteq> []" "length (rows frame_uptrend) = 211"
  "last (map close (rows frame_uptrend)) = 100"
  "high (last (rows frame_uptrend)) = 101" "low (last (rows frame_uptrend)) = 99"
  "map close (rows frame_uptrend) ! 190 = 92"
  by (simp_all add: frame_uptrend_def indicator_last last_map)

lemma frame_uptrend_ema5: "last (ema (map close (rows frame_uptrend)) 5) = 1434857932 / 14348907"
  apply (simp add: frame_uptrend_def indicator_last)
  apply (simp add: indicator_eval)
  done

lemma frame_uptrend_ema20: "last (ema (map close (rows frame_uptrend)) 20) = 2240381698705306480102 / 22707439527650560767"
  apply (simp add: frame_uptrend_def indicator_last)
  apply (simp add: indicator_eval)
  done

lemma frame_uptrend_ema50: "last (ema (map close (rows frame_uptrend)) 50) = 67073692157845490394790710322 / 698234916733099458815100267"
  apply (simp add: frame_uptrend_def indicator_last)
  apply (simp add: indicator_eval)
  done

lemma frame_uptrend_sma200: "last (sma (map close (rows frame_uptrend)) 200) = Some (18541 / 200)"
  by (simp add: frame_uptrend_def indicator_last sum_list_replicate)

lemma frame_uptrend_sma5: "last (sma (map close (rows frame_uptrend)) 5) = Some (100)"
  by (simp add: frame_uptrend_def indicator_last sum_list_replicate)

lemma frame_uptrend_rsi2: "last (map (\<lambda>(ru, rd0). rsi_value ru rd0) (zip (avg_gain (map close (rows frame_uptrend)) 2) (avg_loss (map close (rows frame_uptrend)) 2))) = Some (2100 / 47)"
  apply (simp add: frame_uptrend_def indicator_last)
  apply (simp add: indicator_eval)
  done

lemma frame_uptrend_rsi14: "last (map (\<lambda>(ru, rd0). rsi_value ru rd0) (zip (avg_gain (map close (rows frame_uptrend)) 14) (avg_loss (map close (rows frame_uptrend)) 14))) = Some (60)"
  apply (simp add: frame_uptrend_def indicator_last)
  apply (simp add: indicator_eval)
  done

lemma frame_uptrend_atr14: "last (atr (rows frame_uptrend) 14) = Some (2)"
  by (simp add: frame_uptrend_def indicator_last)

lemmas frame_uptrend_snapshot =
  frame_uptrend_rows frame_uptrend_ema5 frame_uptrend_ema20 frame_uptrend_ema50 frame_uptrend_sma200 frame_uptrend_sma5 frame_uptrend_rsi2 frame_uptrend_rsi14 frame_uptrend_atr14

lemma frame_uptrend_tpl: "strat_trend_pullback_long frame_uptrend = Inr (Some plan_uptrend_pullback)"
  by (simp add: strat_trend_pullback_long_def frame_uptrend_snapshot strat_eval plan_uptrend_pullback_def)

lemma frame_uptrend_mom: "momentum_info_plan frame_uptrend = Inr (Some plan_uptrend_momentum)"
  by (simp add: momentum_info_plan_def frame_uptrend_snapshot strat_eval plan_uptrend_momentum_def)

lemma frame_uptrend_mrl: "strat_mean_reversion_long frame_uptrend = Inr None"
  by (simp add: strat_mean_reversion_long_def frame_uptrend_snapshot strat_eval)

lemma frame_downtrend_rows:
  "rows frame_downtrend \<noteq> []" "length (rows frame_downtrend) = 211"
  "last (map close (rows frame_downtrend)) = 100"
  "high (last (rows frame_downtrend)) = 101" "low (last (rows frame_downtrend)) = 99"
  "map close (rows frame_downtrend) ! 190 = 108"
  by (simp_all add: frame_downtrend_def indicator_last last_map)

lemma frame_downtrend_ema5: "last (ema (map close (rows frame_downtrend)) 5) = 1434923468 / 14348907"
  apply (simp add: frame_downtrend_def indicator_last)
  apply (simp add: indicator_eval)
  done

lemma frame_downtrend_ema20: "last (ema (map close (rows frame_downtrend)) 20) = 2301106206824805673298 / 22707439527650560767"
  apply (simp add: frame_downtrend_def indicator_last)
  apply (simp add: indicator_eval)
  done

lemma frame_downtrend_ema50: "last (ema (map close (rows frame_downtrend)) 50) = 72573291188774401368229343078 / 698234916733099458815100267"
  apply (simp add: frame_downtrend_def indicator_last)
  apply (simp add: indicator_eval)
  done

lemma frame_downtrend_sma200: "last (sma (map close (rows frame_downtrend)) 200) = Some (21459 / 200)"
  by (simp add: frame_downtrend_def indicator_last sum_list_replicate)

lemma frame_downtrend_sma5: "last (sma (map close (rows frame_downtrend)) 5) = Some (100)"
  by (simp add: frame_downtrend_def indicator_last sum_list_replicate)

lemma frame_downtrend_rsi2: "last (map (\<lambda>(ru, rd0). rsi_value ru rd0) (zip (avg_gain (map close (rows frame_downtrend)) 2) (avg_loss (map close (rows frame_downtrend)) 2))) = Some (2600 / 47)"
  apply (simp add: frame_downtrend_def indicator_last)
  apply (simp add: indicator_eval)
  done

lemma frame_downtrend_rsi14: "last (map (\<lambda>(ru, rd0). rsi_value ru rd0) (zip (avg_gain (map close (rows frame_downtrend)) 14) (avg_loss (map close (rows frame_downtrend)) 14))) = Some (40)"
  apply (simp add: frame_downtrend_def indicator_last)
  apply (simp add: indicator_eval)
  done

lemma frame_downtrend_atr14: "last (atr (rows frame_downtrend) 14) = Some (2)"
  by (simp add: frame_downtrend_def indicator_last)

lemmas frame_downtrend_snapshot =
  frame_downtrend_rows frame_downtrend_ema5 frame_downtrend_ema20 frame_downtrend_ema50 frame_downtrend_sma200 frame_downtrend_sma5 frame_downtrend_rsi2 frame_downtrend_rsi14 frame_downtrend_atr14

lemma frame_downtrend_tps: "strat_trend_pullback_short frame_downtrend = Inr (Some plan_downtrend_pullback)"
  by (simp add: strat_trend_pullback_short_def frame_downtrend_snapshot strat_eval plan_downtrend_pullback_def)

lemma frame_downtrend_mom: "momentum_info_plan frame_downtrend = Inr (Some plan_downtrend_momentum)"
  by (simp add: momentum_info_plan_def frame_downtrend_snapshot strat_eval plan_downtrend_momentum_def)

lemma frame_downtrend_mrs: "strat_mean_reversion_short frame_downtrend = Inr None"
  by (simp add: strat_mean_reversion_short_def frame_downtrend_snapshot strat_eval)

lemma frame_oversold_rows:
  "rows frame_oversold \<noteq> []" "length (rows frame_oversold) = 211"
  "last (map close (rows frame_oversold)) = 351 / 5"
  "high (last (rows frame_oversold)) = 707 / 10" "low (last (rows frame_oversold)) = 697 / 10"
  "map close (rows frame_oversold) ! 190 = 50"
  by (simp_all add: frame_oversold_def indicator_last last_map)

lemma frame_oversold_ema5: "last (ema (map close (rows frame_oversold)) 5) = 15914622857 / 215233605"
  apply (simp add: frame_oversold_def indicator_last)
  apply (simp add: indicator_eval)
  done

lemma frame_oversold_ema20: "last (ema (map close (rows frame_oversold)) 20) = 558823198152219407738552 / 7152843451209926641605"
  apply (simp add: frame_oversold_def indicator_last)
  apply (simp add: indicator_eval)
  done

lemma frame_oversold_ema50: "last (ema (map close (rows frame_oversold)) 50) = 714364907381949955120640961452 / 10473523750996491882226504005"
  apply (simp add: frame_oversold_def indicator_last)
  apply (simp add: indicator_eval)
  done

lemma frame_oversold_sma200: "last (sma (map close (rows frame_oversold)) 200) = Some (53251 / 1000)"
  by (simp add: frame_oversold_def indicator_last sum_list_replicate)

lemma frame_oversold_sma5: "last (sma (map close (rows frame_oversold)) 5) = Some (1751 / 25)"
  by (simp add: frame_oversold_def indicator_last sum_list_replicate)

lemma frame_oversold_rsi2: "last (map (\<lambda>(ru, rd0). rsi_value ru rd0) (zip (avg_gain (map close (rows frame_oversold)) 2) (avg_loss (map close (rows frame_oversold)) 2))) = Some (550300 / 56703)"
  apply (simp add: frame_oversold_def indicator_last)
  apply (simp add: indicator_eval)
  done

lemma frame_oversold_rsi14: "last (map (\<lambda>(ru, rd0). rsi_value ru rd0) (zip (avg_gain (map close (rows frame_oversold)) 14) (avg_loss (map close (rows frame_oversold)) 14))) = Some (215867355818008357900 / 5050164328449421179)"
  apply (simp add: frame_oversold_def indicator_last)
  apply (simp add: indicator_eval)
  done

lemma frame_oversold_atr14: "last (atr (rows frame_oversold) 14) = Some (87 / 28)"
  by (simp add: frame_oversold_def indicator_last)

lemmas frame_oversold_snapshot =
  frame_oversold_rows frame_oversold_ema5 frame_oversold_ema20 frame_oversold_ema50 frame_oversold_sma200 frame_oversold_sma5 frame_oversold_rsi2 frame_oversold_rsi14 frame_oversold_atr14

lemma frame_oversold_mrl: "strat_mean_reversion_long frame_oversold = Inr (Some plan_oversold_reversion)"
  by (simp add: strat_mean_reversion_long_def frame_oversold_snapshot strat_eval plan_oversold_reversion_def)

lemma frame_overbought_rows:
  "rows frame_overbought \<noteq> []" "length (rows frame_overbought) = 211"
  "last (map close (rows frame_overbought)) = 649 / 5"
  "high (last (rows frame_overbought)) = 1303 / 10" "low (last (rows frame_overbought)) = 1293 / 10"
  "map close (rows frame_overbought) ! 190 = 150"
  by (simp_all add: frame_overbought_def indicator_last last_map)

lemma frame_overbought_ema5: "last (ema (map close (rows frame_overbought)) 5) = 27132098143 / 215233605"
  apply (simp add: frame_overbought_def indicator_last)
  apply (simp add: indicator_eval)
  done

lemma frame_overbought_ema20: "last (ema (map close (rows frame_overbought)) 20) = 871745492089765920582448 / 7152843451209926641605"
  apply (simp add: frame_overbought_def indicator_last)
  apply (simp add: indicator_eval)
  done

lemma frame_overbought_ema50: "last (ema (map close (rows frame_overbought)) 50) = 1380339842817348421324659839548 / 10473523750996491882226504005"
  apply (simp add: frame_overbought_def indicator_last)
  apply (simp add: indicator_eval)
  done

lemma frame_overbought_sma200: "last (sma (map close (rows frame_overbought)) 200) = Some (146749 / 1000)"
  by (simp add: frame_overbought_def indicator_last sum_list_replicate)

lemma frame_overbought_sma5: "last (sma (map close (rows frame_overbought)) 5) = Some (3249 / 25)"
  by (simp add: frame_overbought_def indicator_last sum_list_replicate)

lemma frame_overbought_rsi2: "last (map (\<lambda>(ru, rd0). rsi_value ru rd0) (zip (avg_gain (map close (rows frame_overbought)) 2) (avg_loss (map close (rows frame_overbought)) 2))) = Some (5120000 / 56703)"
  apply (simp add: frame_overbought_def indicator_last)
  apply (simp add: indicator_eval)
  done

lemma frame_overbought_rsi14: "last (map (\<lambda>(ru, rd0). rsi_value ru rd0) (zip (avg_gain (map close (rows frame_overbought)) 14) (avg_loss (map close (rows frame_overbought)) 14))) = Some (289149077026933760000 / 5050164328449421179)"
  apply (simp add: frame_overbought_def indicator_last)
  apply (simp add: indicator_eval)
  done

lemma frame_overbought_atr14: "last (atr (rows frame_overbought) 14) = Some (87 / 28)"
  by (simp add: frame_overbought_def indicator_last)

lemmas frame_overbought_snapshot =
  frame_overbought_rows frame_overbought_ema5 frame_overbought_ema20 frame_overbought_ema50 frame_overbought_sma200 frame_overbought_sma5 frame_overbought_rsi2 frame_overbought_rsi14 frame_overbought_atr14

lemma frame_overbought_mrs: "strat_mean_reversion_short frame_overbought = Inr (Some plan_overbought_reversion)"
  by (simp add: strat_mean_reversion_short_def frame_overbought_snapshot strat_eval plan_overbought_reversion_def)

lemma frame_dip_rows:
  "rows frame_dip \<noteq> []" "length (rows frame_dip) = 211"
  "last (map close (rows frame_dip)) = 70"
  "high (last (rows frame_dip)) = 141 / 2" "low (last (rows frame_dip)) = 139 / 2"
  "map close (rows frame_dip) ! 190 = 50"
  by (simp_all add: frame_dip_def indicator_last last_map)

lemma frame_dip_ema5: "last (ema (map close (rows frame_dip)) 5) = 3265085350 / 43046721"
  apply (simp add: frame_dip_def indicator_last)
  apply (simp add: indicator_eval)
  done

lemma frame_dip_ema20: "last (ema (map close (rows frame_dip)) 20) = 114476301551900467851250 / 1430568690241985328321"
  apply (simp add: frame_dip_def indicator_last)
  apply (simp add: indicator_eval)
  done

lemma frame_dip_ema50: "last (ema (map close (rows frame_dip)) 50) = 144956495424332655404247908050 / 2094704750199298376445300801"
  apply (simp add: frame_dip_def indicator_last)
  apply (simp add: indicator_eval)
  done

lemma frame_dip_sma200: "last (sma (map close (rows frame_dip)) 200) = Some (267 / 5)"
  by (simp add: frame_dip_def indicator_last sum_list_replicate)

lemma frame_dip_sma5: "last (sma (map close (rows frame_dip)) 5) = Some (76)"
  by (simp add: frame_dip_def indicator_last sum_list_replicate)

lemma frame_dip_rsi2: "last (map (\<lambda>(ru, rd0). rsi_value ru rd0) (zip (avg_gain (map close (rows frame_dip)) 2) (avg_loss (map close (rows frame_dip)) 2))) = Some (500 / 12293)"
  apply (simp add: frame_dip_def indicator_last)
  apply (simp add: indicator_eval)
  done

lemma frame_dip_rsi14: "last (map (\<lambda>(ru, rd0). rsi_value ru rd0) (zip (avg_gain (map close (rows frame_dip)) 14) (avg_loss (map close (rows frame_dip)) 14))) = Some (11649042561240500 / 286572162738293)"
  apply (simp add: frame_dip_def indicator_last)
  apply (simp add: indicator_eval)
  done

lemma frame_dip_atr14: "last (atr (rows frame_dip) 14) = Some (87 / 28)"
  by (simp add: frame_dip_def indicator_last)

lemmas frame_dip_snapshot =
  frame_dip_rows frame_dip_ema5 frame_dip_ema20 frame_dip_ema50 frame_dip_sma200 frame_dip_sma5 frame_dip_rsi2 frame_dip_rsi14 frame_dip_atr14

lemma frame_dip_mrl: "strat_mean_reversion_long frame_dip = Inr (Some plan_dip_reversion)"
  by (simp add: strat_mean_reversion_long_def frame_dip_snapshot strat_eval plan_dip_reversion_def)

lemma frame_spike_rows:
  "rows frame_spike \<noteq> []" "length (rows frame_spike) = 211"
  "last (map close (rows frame_spike)) = 130"
  "high (last (rows frame_spike)) = 261 / 2" "low (last (rows frame_spike)) = 259 / 2"
  "map close (rows frame_spike) ! 190 = 150"
  by (simp_all add: frame_spike_def indicator_last last_map)

lemma frame_spike_ema5: "last (ema (map close (rows frame_spike)) 5) = 5344258850 / 43046721"
  apply (simp add: frame_spike_def indicator_last)
  apply (simp add: indicator_eval)
  done

lemma frame_spike_ema20: "last (ema (map close (rows frame_spike)) 20) = 171637436496496597812950 / 1430568690241985328321"
  apply (simp add: frame_spike_def indicator_last)
  apply (simp add: indicator_eval)
  done

lemma frame_spike_ema50: "last (ema (map close (rows frame_spike)) 50) = 273984454615527019884812252150 / 2094704750199298376445300801"
  apply (simp add: frame_spike_def indicator_last)
  apply (simp add: indicator_eval)
  done

lemma frame_spike_sma200: "last (sma (map close (rows frame_spike)) 200) = Some (733 / 5)"
  by (simp add: frame_spike_def indicator_last sum_list_replicate)

lemma frame_spike_sma5: "last (sma (map close (rows frame_spike)) 5) = Some (124)"
  by (simp add: frame_spike_def indicator_last sum_list_replicate)

lemma frame_spike_rsi2: "last (map (\<lambda>(ru, rd0). rsi_value ru rd0) (zip (avg_gain (map close (rows frame_spike)) 2) (avg_loss (map close (rows frame_spike)) 2))) = Some (1228800 / 12293)"
  apply (simp add: frame_spike_def indicator_last)
  apply (simp add: indicator_eval)
  done

lemma frame_spike_rsi14: "last (map (\<lambda>(ru, rd0). rsi_value ru rd0) (zip (avg_gain (map close (rows frame_spike)) 14) (avg_loss (map close (rows frame_spike)) 14))) = Some (17008173712588800 / 286572162738293)"
  apply (simp add: frame_spike_def indicator_last)
  apply (simp add: indicator_eval)
  done

lemma frame_spike_atr14: "last (atr (rows frame_spike) 14) = Some (87 / 28)"
  by (simp add: frame_spike_def indicator_last)

lemmas frame_spike_snapshot =
  frame_spike_rows frame_spike_ema5 frame_spike_ema20 frame_spike_ema50 frame_spike_sma200 frame_spike_sma5 frame_spike_rsi2 frame_spike_rsi14 frame_spike_atr14

lemma frame_spike_mrs: "strat_mean_reversion_short frame_spike = Inr (Some plan_spike_reversion)"
  by (simp add: strat_mean_reversion_short_def frame_spike_snapshot strat_eval plan_spike_reversion_def)

lemma frame_flat_rows:
  "rows frame_flat \<noteq> []" "length (rows frame_flat) = 211"
  "last (map close (rows frame_flat)) = 100"
  "high (last (rows frame_flat)) = 100" "low (last (rows frame_flat)) = 100"
  "map close (rows frame_flat) ! 190 = 92"
  by (simp_all add: frame_flat_def indicator_last last_map)

lemma frame_flat_ema5: "last (ema (map close (rows frame_flat)) 5) = 1434857932 / 14348907"
  apply (simp add: frame_flat_def indicator_last)
  apply (simp add: indicator_eval)
  done

lemma frame_flat_ema20: "last (ema (map close (rows frame_flat)) 20) = 2240381698705306480102 / 22707439527650560767"
  apply (simp add: frame_flat_def indicator_last)
  apply (simp add: indicator_eval)
  done

lemma frame_flat_ema50: "last (ema (map close (rows frame_flat)) 50) = 67073692157845490394790710322 / 698234916733099458815100267"
  apply (simp add: frame_flat_def indicator_last)
  apply (simp add: indicator_eval)
  done

lemma frame_flat_sma200: "last (sma (map close (rows frame_flat)) 200) = Some (18541 / 200)"
  by (simp add: frame_flat_def indicator_last sum_list_replicate)

lemma frame_flat_sma5: "last (sma (map close (rows frame_flat)) 5) = Some (100)"
  by (simp add: frame_flat_def indicator_last sum_list_replicate)

lemma frame_flat_rsi2: "last (map (\<lambda>(ru, rd0). rsi_value ru rd0) (zip (avg_gain (map close (rows frame_flat)) 2) (avg_loss (map close (rows frame_flat)) 2))) = Some (2100 / 47)"
  apply (simp add: frame_flat_def indicator_last)
  apply (simp add: indicator_eval)
  done

lemma frame_flat_rsi14: "last (map (\<lambda>(ru, rd0). rsi_value ru rd0) (zip (avg_gain (map close (rows frame_flat)) 14) (avg_loss (map close (rows frame_flat)) 14))) = Some (60)"
  apply (simp add: frame_flat_def indicator_last)
  apply (simp add: indicator_eval)
  done

lemma frame_flat_atr14: "last (atr (rows frame_flat) 14) = Some (0)"
  by (simp add: frame_flat_def indicator_last)

lemmas frame_flat_snapshot =
  frame_flat_rows frame_flat_ema5 frame_flat_ema20 frame_flat_ema50 frame_flat_sma200 frame_flat_sma5 frame_flat_rsi2 frame_flat_rsi14 frame_flat_atr14

lemma frame_flat_tpl: "strat_trend_pullback_long frame_flat = Inr (Some plan_flat_pullback)"
  by (simp add: strat_trend_pullback_long_def frame_flat_snapshot strat_eval plan_flat_pullback_def)

lemma frame_weekly_uptrend_resample: "resample_weekly frame_weekly_uptrend = Inr (rows frame_weekly_uptrend)"
  by code_simp

lemma frame_weekly_uptrend_rows:
  "rows frame_weekly_uptrend \<noteq> []" "length (rows frame_weekly_uptrend) = 62"
  "last (map close (rows frame_weekly_uptrend)) = 100"
  "high (last (rows frame_weekly_uptrend)) = 101" "low (last (rows frame_weekly_uptrend)) = 99"
  "map close (rows frame_weekly_uptrend) ! 41 = 92"
  by (simp_all add: frame_weekly_uptrend_def indicator_last last_map)

lemma frame_weekly_uptrend_ema10: "last (ema (map close (rows frame_weekly_uptrend)) 10) = 4585501994280862246 / 45949729863572161"
  apply (simp add: frame_weekly_uptrend_def indicator_last)
  apply (simp add: indicator_eval)
  done

lemma frame_weekly_uptrend_ema30: "last (ema (map close (rows frame_weekly_uptrend)) 30) = 70964699292713300388012606 / 727423121747185263828481"
  apply (simp add: frame_weekly_uptrend_def indicator_last)
  apply (simp add: indicator_eval)
  done

lemma frame_weekly_uptrend_sma40: "last (sma (map close (rows frame_weekly_uptrend)) 40) = Some (3821 / 40)"
  by (simp add: frame_weekly_uptrend_def indicator_last sum_list_replicate)

lemma frame_weekly_uptrend_rsi14: "last (map (\<lambda>(ru, rd0). rsi_value ru rd0) (zip (avg_gain (map close (rows frame_weekly_uptrend)) 14) (avg_loss (map close (rows frame_weekly_uptrend)) 14))) = Some (60)"
  apply (simp add: frame_weekly_uptrend_def indicator_last)
  apply (simp add: indicator_eval)
  done

lemma frame_weekly_uptrend_atr14: "last (atr (rows frame_weekly_uptrend) 14) = Some (2)"
  by (simp add: frame_weekly_uptrend_def indicator_last)

lemmas frame_weekly_uptrend_snapshot =
  frame_weekly_uptrend_rows frame_weekly_uptrend_ema10 frame_weekly_uptrend_ema30 frame_weekly_uptrend_sma40 frame_weekly_uptrend_rsi14 frame_weekly_uptrend_atr14

lemma frame_weekly_uptrend_weekly: "invest_trend_weekly_long frame_weekly_uptrend = Inr (Some plan_weekly_uptrend)"
  by (simp add: invest_trend_weekly_long_def frame_weekly_uptrend_resample frame_weekly_uptrend_snapshot strat_eval plan_weekly_uptrend_def)

section \<open>Claims\<close>

subsection \<open>C1: ordering of entry, stop and target\<close>

text \<open>
  Claim C1, as amended. A plan of the trend-pullback strategies, of the momentum fallback
  or of the weekly strategy has its levels in the order of its direction, equality
  allowed: target \<open>\<ge>\<close> entry \<open>\<ge>\<close> stop when bullish, target \<open>\<le>\<close> entry \<open>\<le>\<close> stop when bearish.
  The order is strict when the ATR at the last bar exceeds 0.01, one step of the
  two-decimal rounding of \<open>plan_dict\<close>. A plan of a mean-reversion strategy has the
  rounded 5-period SMA as its target and its stop on the right side of the entry, strictly
  so for an ATR above 0.01. Whenever that SMA lies on the profit side of the last close
  (not below it for the long variant, not above it for the short one) the plan has its
  three levels in the order of its direction, equality allowed, and strictly so when the
  SMA is more than 0.01 away from the close and the ATR exceeds 0.01.
\<close>

theorem plan_levels_ordered:
  "(strat_trend_pullback_long df = Inr (Some p) \<longrightarrow>
      direction p = ''bullish'' \<and> weakly_ordered p \<and>
      (last (atr (rows df) 14) = Some atr14 \<and> 0.01 < atr14 \<longrightarrow> strictly_ordered p)) \<and>
   (strat_trend_pullback_short df = Inr (Some p) \<longrightarrow>
      direction p = ''bearish'' \<and> weakly_ordered p \<and>
      (last (atr (rows df) 14) = Some atr14 \<and> 0.01 < atr14 \<longrightarrow> strictly_ordered p)) \<and>
   (momentum_info_plan df = Inr (Some p) \<longrightarrow>
      direction p \<in> {''bullish'', ''bearish''} \<and> weakly_ordered p \<and>
      (last (atr (rows df) 14) = Some atr14 \<and> 0.01 < atr14 \<longrightarrow> strictly_ordered p)) \<and>
   (invest_trend_weekly_long df = Inr (Some p) \<longrightarrow>
      direction p = ''bullish'' \<and> weakly_ordered p \<and>
      (resample_weekly df = Inr w \<and> last (atr w 14) = Some atr14 \<and> 0.01 < atr14 \<longrightarrow> strictly_ordered p)) \<and>
   (strat_mean_reversion_long df = Inr (Some p) \<longrightarrow>
      direction p = ''bullish'' \<and> stop_side_ordered p \<and>
      (\<exists>m. last (sma (map close (rows df)) 5) = Some m \<and> target p = round2 m) \<and>
      (last (sma (map close (rows df)) 5) = Some sma5 \<and> close (last (rows df)) \<le> sma5 \<longrightarrow>
         weakly_ordered p) \<and>
      (last (atr (rows df) 14) = Some atr14 \<and> 0.01 < atr14 \<longrightarrow> stop p < entry p) \<and>
      (last (sma (map close (rows df)) 5) = Some sma5 \<and> close (last (rows df)) + 0.01 < sma5 \<and>
       last (atr (rows df) 14) = Some atr14 \<and> 0.01 < atr14 \<longrightarrow> strictly_ordered p)) \<and>
   (strat_mean_reversion_short df = Inr (Some p) \<longrightarrow>
      direction p = ''bearish'' \<and> stop_side_ordered p \<and>
      (\<exists>m. last (sma (map close (rows df)) 5) = Some m \<and> target p = round2 m) \<and>
      (last (sma (map close (rows df)) 5) = Some sma5 \<and> sma5 \<le> close (last (rows df)) \<longrightarrow>
         weakly_ordered p) \<and>
      (last (atr (rows df) 14) = Some atr14 \<and> 0.01 < atr14 \<longrightarrow> entry p < stop p) \<and>
      (last (sma (map close (rows df)) 5) = Some sma5 \<and> sma5 + 0.01 < close (last (rows df)) \<and>
       last (atr (rows df) 14) = Some atr14 \<and> 0.01 < atr14 \<longrightarrow> strictly_ordered p))"
proof -
  have 1: "strat_trend_pullback_long df = Inr (Some p) \<longrightarrow>
      direction p = ''bullish'' \<and> weakly_ordered p \<and>
      (last (atr (rows df) 14) = Some atr14 \<and> 0.01 < atr14 \<longrightarrow> strictly_ordered p)"
    by (rule impI) (rule trend_pullback_long_ordered)
  have 2: "strat_trend_pullback_short df = Inr (Some p) \<longrightarrow>
      direction p = ''bearish'' \<and> weakly_ordered p \<and>
      (last (atr (rows df) 14) = Some atr14 \<and> 0.01 < atr14 \<longrightarrow> strictly_ordered p)"
    by (rule impI) (rule trend_pullback_short_ordered)
  have 3: "momentum_info_plan df = Inr (Some p) \<longrightarrow>
      direction p \<in> {''bullish'', ''bearish''} \<and> weakly_ordered p \<and>
      (last (atr (rows df) 14) = Some atr14 \<and> 0.01 < atr14 \<longrightarrow> strictly_ordered p)"
    by (rule impI) (rule momentum_ordered)
  have 4: "invest_trend_weekly_long df = Inr (Some p) \<longrightarrow>
      direction p = ''bullish'' \<and> weakly_ordered p \<and>
      (resample_weekly df = Inr w \<and> last (atr w 14) = Some atr14 \<and> 0.01 < atr14 \<longrightarrow> strictly_ordered p)"
    by (rule impI) (rule weekly_ordered)
  have 5: "strat_mean_reversion_long df = Inr (Some p) \<longrightarrow>
      direction p = ''bullish'' \<and> stop_side_ordered p \<and>
      (\<exists>m. last (sma (map close (rows df)) 5) = Some m \<and> target p = round2 m) \<and>
      (last (sma (map close (rows df)) 5) = Some sma5 \<and> close (last (rows df)) \<le> sma5 \<longrightarrow>
         weakly_ordered p) \<and>
      (last (atr (rows df) 14) = Some atr14 \<and> 0.01 < atr14 \<longrightarrow> stop p < entry p) \<and>
      (last (sma (map close (rows df)) 5) = Some sma5 \<and> close (last (rows df)) + 0.01 < sma5 \<and>
       last (atr (rows df) 14) = Some atr14 \<and> 0.01 < atr14 \<longrightarrow> strictly_ordered p)"
    by (rule impI) (rule mean_reversion_long_ordered)
  have 6: "strat_mean_reversion_short df = Inr (Some p) \<longrightarrow>
      direction p = ''bearish'' \<and> stop_side_ordered p \<and>
      (\<exists>m. last (sma (map close (rows df)) 5) = Some m \<and> target p = round2 m) \<and>
      (last (sma (map close (rows df)) 5) = Some sma5 \<and> sma5 \<le> close (last (rows df)) \<longrightarrow>
         weakly_ordered p) \<and>
      (last (atr (rows df) 14) = Some atr14 \<and> 0.01 < atr14 \<longrightarrow> entry p < stop p) \<and>
      (last (sma (map close (rows df)) 5) = Some sma5 \<and> sma5 + 0.01 < close (last (rows df)) \<and>
       last (atr (rows df) 14) = Some atr14 \<and> 0.01 < atr14 \<longrightarrow> strictly_ordered p)"
    by (rule impI) (rule mean_reversion_short_ordered)
  show ?thesis by (intro conjI) (rule 1 2 3 4 5 6)+
qed

text \<open>
  Each strategy admits one of the example frames, with an ATR of 2 or of 87/28, and the
  theorem gives the strict order there. On \<open>frame_dip\<close> the 5-period SMA, 76, lies above
  the last close, 70; on \<open>frame_spike\<close> the SMA, 124, lies below the close, 130.
\<close>

theorem plan_levels_ordered_witness:
  "strat_trend_pullback_long frame_uptrend = Inr (Some plan_uptrend_pullback) \<and>
   strictly_ordered plan_uptrend_pullback \<and>
   strat_trend_pullback_short frame_downtrend = Inr (Some plan_downtrend_pullback) \<and>
   strictly_ordered plan_downtrend_pullback \<and>
   momentum_info_plan frame_uptrend = Inr (Some plan_uptrend_momentum) \<and>
   strictly_ordered plan_uptrend_momentum \<and>
   momentum_info_plan frame_downtrend = Inr (Some plan_downtrend_momentum) \<and>
   strictly_ordered plan_downtrend_momentum \<and>
   invest_trend_weekly_long frame_weekly_uptrend = Inr (Some plan_weekly_uptrend) \<and>
   strictly_ordered plan_weekly_uptrend \<and>
   strat_mean_reversion_long frame_dip = Inr (Some plan_dip_reversion) \<and>
   last (sma (map close (rows frame_dip)) 5) = Some 76 \<and> close (last (rows frame_dip)) = 70 \<and>
   last (atr (rows frame_dip) 14) = Some (87 / 28) \<and>
   stop plan_dip_reversion < entry plan_dip_reversion \<and>
   weakly_ordered plan_dip_reversion \<and> strictly_ordered plan_dip_reversion \<and>
   strat_mean_reversion_short frame_spike = Inr (Some plan_spike_reversion) \<and>
   last (sma (map close (rows frame_spike)) 5) = Some 124 \<and> close (last (rows frame_spike)) = 130 \<and>
   last (atr (rows frame_spike) 14) = Some (87 / 28) \<and>
   entry plan_spike_reversion < stop plan_spike_reversion \<and>
   weakly_ordered plan_spike_reversion \<and> strictly_ordered plan_spike_reversion"
proof -
  have "strictly_ordered plan_uptrend_pullback"
    using plan_levels_ordered [of frame_uptrend plan_uptrend_pullback 2]
      frame_uptrend_tpl frame_uptrend_atr14 by simp
  moreover have "strictly_ordered plan_downtrend_pullback"
    using plan_levels_ordered [of frame_downtrend plan_downtrend_pullback 2]
      frame_downtrend_tps frame_downtrend_atr14 by simp
  moreover have "strictly_ordered plan_uptrend_momentum"
    using plan_levels_ordered [of frame_uptrend plan_uptrend_momentum 2]
      frame_uptrend_mom frame_uptrend_atr14 by simp
  moreover have "strictly_ordered plan_downtrend_momentum"
    using plan_levels_ordered [of frame_downtrend plan_downtrend_momentum 2]
      frame_downtrend_mom frame_downtrend_atr14 by simp
  moreover have "strictly_ordered plan_weekly_uptrend"
    using plan_levels_ordered [of frame_weekly_uptrend plan_weekly_uptrend 2 "rows frame_weekly_uptrend"]
      frame_weekly_uptrend_weekly frame_weekly_uptrend_resample frame_weekly_uptrend_atr14 by simp
  moreover have cd: "close (last (rows frame_dip)) = 70"
    using frame_dip_rows(1,3) by (simp add: last_map)
  moreover have "stop plan_dip_reversion < entry plan_dip_reversion \<and>
      weakly_ordered plan_dip_reversion \<and> strictly_ordered plan_dip_reversion"
    using plan_levels_ordered [of frame_dip plan_dip_reversion "87 / 28" _ 76]
      frame_dip_mrl frame_dip_atr14 frame_dip_sma5 cd by simp
  moreover have cs: "close (last (rows frame_spike)) = 130"
    using frame_spike_rows(1,3) by (simp add: last_map)
  moreover have "entry plan_spike_reversion < stop plan_spike_reversion \<and>
      weakly_ordered plan_spike_reversion \<and> strictly_ordered plan_spike_reversion"
    using plan_levels_ordered [of frame_spike plan_spike_reversion "87 / 28" _ 124]
      frame_spike_mrs frame_spike_atr14 frame_spike_sma5 cs by simp
  ultimately show ?thesis
    using frame_uptrend_tpl frame_downtrend_tps frame_uptrend_mom frame_downtrend_mom
      frame_weekly_uptrend_weekly frame_dip_mrl frame_spike_mrs
      frame_dip_atr14 frame_dip_sma5 frame_spike_atr14 frame_spike_sma5 by simp
qed

text \<open>
  The claim as stated fails, in two ways. On \<open>frame_overbought\<close> the short mean-reversion
  strategy admits with the 5-period SMA, 129.96, above the last close, 129.80: the target
  of its bearish plan lies above the entry. On \<open>frame_flat\<close> the ATR is 0 and the long
  trend pullback admits: entry, stop and target of its plan are all 100.05.
\<close>

theorem plan_levels_order_counterexample:
  "strat_mean_reversion_short frame_overbought = Inr (Some plan_overbought_reversion) \<and>
   direction plan_overbought_reversion = ''bearish'' \<and>
   entry plan_overbought_reversion = 129.8 \<and> target plan_overbought_reversion = 129.96 \<and>
   \<not> strictly_ordered plan_overbought_reversion \<and>
   strat_trend_pullback_long frame_flat = Inr (Some plan_flat_pullback) \<and>
   last (atr (rows frame_flat) 14) = Some 0 \<and>
   direction plan_flat_pullback = ''bullish'' \<and>
   entry plan_flat_pullback = 100.05 \<and> stop plan_flat_pullback = 100.05 \<and>
   target plan_flat_pullback = 100.05 \<and>
   \<not> strictly_ordered plan_flat_pullback"
  using frame_overbought_mrs frame_flat_tpl frame_flat_atr14
  by (simp add: plan_overbought_reversion_def plan_flat_pullback_def strictly_ordered_def)

subsection \<open>C3: range of the RSI\<close>

text \<open>
  Claim C3, as amended. For a window \<open>n > 0\<close>, \<open>rsi\<close> returns a series as long as its
  input; wherever it is defined it lies in [0, 100]; and at every position where the
  smoothed average loss is zero it is missing, also where the smoothed average gain is
  positive.
\<close>

theorem rsi_range_missing_on_zero_loss:
  assumes "0 < n" and "i < length series"
  shows "\<exists>r. rsi series n = Inr r \<and> length r = length series \<and>
           (\<forall>v. r ! i = Some v \<longrightarrow> 0 \<le> v \<and> v \<le> 100) \<and>
           (avg_loss series n ! i = 0 \<longrightarrow> r ! i = None)"
proof -
  obtain r where r: "rsi series n = Inr r"
    using assms(1) by (simp add: rsi_def)
  have nth: "r ! i = rsi_value (avg_gain series n ! i) (avg_loss series n ! i)"
    using r assms(2) by (rule rsi_nth)
  have "0 \<le> avg_gain series n ! i" "0 \<le> avg_loss series n ! i"
    using assms by (simp_all add: avg_gain_nonneg avg_loss_nonneg)
  then have "\<forall>v. rsi_value (avg_gain series n ! i) (avg_loss series n ! i) = Some v \<longrightarrow> 0 \<le> v \<and> v < 100"
    using rsi_value_range by blast
  then have "\<forall>v. r ! i = Some v \<longrightarrow> 0 \<le> v \<and> v \<le> 100"
    unfolding nth by (simp add: less_imp_le)
  moreover have "avg_loss series n ! i = 0 \<longrightarrow> r ! i = None"
    unfolding nth by (simp add: rsi_value_None_iff)
  ultimately show ?thesis using r rsi_length [OF r] by auto
qed

text \<open>
  On the series 1, 2, 1 the smoothed loss is zero at the second position, where the RSI
  is missing, and 1/14 at the last one, where the RSI is 1300/27.
\<close>

theorem rsi_range_missing_on_zero_loss_witness:
  "(0::nat) < 14 \<and> 2 < length [1, 2, 1 :: real] \<and>
   rsi [1, 2, 1] 14 = Inr [None, None, Some (1300 / 27)] \<and>
   (0::real) \<le> 1300 / 27 \<and> (1300 / 27 :: real) \<le> 100 \<and>
   avg_loss [1, 2, 1] 14 ! 2 = 1 / 14 \<and> avg_loss [1, 2, 1] 14 ! 1 = 0"
proof -
  have e: "rsi [1, 2, 1] 14 = Inr [None, None, Some (1300 / 27)]"
    by (simp add: rsi_def rsi_value_def avg_gain_def avg_loss_def gains_def losses_def diff_def)
  have l: "avg_loss [1, 2, 1] 14 ! 2 = 1 / 14" "avg_loss [1, 2, 1] 14 ! 1 = 0"
    by (simp_all add: avg_loss_def losses_def diff_def)
  show ?thesis
    using rsi_range_missing_on_zero_loss [of 14 2 "[1, 2, 1]"]
      rsi_range_missing_on_zero_loss [of 14 1 "[1, 2, 1]"] e l by simp
qed

text \<open>
  The claim as stated fails: after the rise from 1 to 2 the smoothed loss is zero and the
  smoothed gain is positive, and the RSI is missing there, not 100.
\<close>

theorem rsi_zero_loss_counterexample:
  "avg_loss [1, 2] 14 ! 1 = 0 \<and> 0 < avg_gain [1, 2] 14 ! 1 \<and> rsi [1, 2] 14 = Inr [None, None]"
  by (simp add: rsi_def rsi_value_def avg_gain_def avg_loss_def gains_def losses_def diff_def)

subsection \<open>C4: selection\<close>

text \<open>
  Claim C4. Whatever candidates were gathered, the ranked and capped list has at most 12
  entries for the short horizon and at most 8 for the long one, and each list is
  non-increasing in the lexicographic order on (ranking score, reward/risk ratio).
\<close>

theorem selection_capped_and_ranked:
  "length (rank_and_cap MAX_SHORT_IDEAS short_results) \<le> 12 \<and>
   length (rank_and_cap MAX_LONG_IDEAS long_results) \<le> 8 \<and>
   sorted_wrt lex_ge (rank_and_cap MAX_SHORT_IDEAS short_results) \<and>
   sorted_wrt lex_ge (rank_and_cap MAX_LONG_IDEAS long_results)"
proof -
  have "sorted_wrt lex_ge (rank_and_cap cap xs)" for cap xs
  proof -
    have "sorted_wrt (\<lambda>a b. rank_key b \<le> rank_key a) (sort_desc rank_key xs)"
      by (rule sorted_wrt_sort_desc)
    then have "sorted_wrt lex_ge (sort_desc rank_key xs)"
      by (simp add: rank_key_le_iff [abs_def])
    then show ?thesis
      unfolding rank_and_cap_def by (rule sorted_wrt_take)
  qed
  then show ?thesis
    by (simp add: rank_and_cap_def MAX_SHORT_IDEAS_def MAX_LONG_IDEAS_def)
qed

subsection \<open>C7: average true range\<close>

text \<open>
  Claim C7, as amended. For a series whose first bar has \<open>low \<le> high\<close>, \<open>atr\<close> is
  non-negative wherever it is defined. The true range of the first bar is \<open>high - low\<close>;
  \<open>atr\<close> itself is defined on the first bar only for the window 1, where it is that
  true range, and is missing there for every other window.
\<close>

theorem atr_nonneg_first_bar:
  assumes "df \<noteq> []" and "low (hd df) \<le> high (hd df)" and "i < length df"
  shows "(\<forall>v. atr df n ! i = Some v \<longrightarrow> 0 \<le> v) \<and>
         hd (true_range df) = high (hd df) - low (hd df) \<and>
         atr df n ! 0 = (if n = 1 then Some (high (hd df) - low (hd df)) else None)"
proof -
  have nonneg: "\<forall>x\<in>set (true_range df). 0 \<le> x"
    using assms(1,2) by (rule true_range_set_nonneg)
  have "\<forall>v. atr df n ! i = Some v \<longrightarrow> 0 \<le> v"
  proof (intro allI impI)
    fix v assume v: "atr df n ! i = Some v"
    then have n: "n \<noteq> 0" and
      veq: "v = sum_list (drop (Suc i - n) (take (Suc i) (true_range df))) / real n"
      using assms(3) by (auto simp: atr_nth split: if_splits)
    have "set (drop (Suc i - n) (take (Suc i) (true_range df))) \<subseteq> set (true_range df)"
      by (meson set_drop_subset set_take_subset subset_trans)
    then have "0 \<le> sum_list (drop (Suc i - n) (take (Suc i) (true_range df)))"
      using nonneg by (intro sum_list_nonneg) auto
    then show "0 \<le> v" unfolding veq by simp
  qed
  moreover have "atr df n ! 0 = (if n = 1 then Some (high (hd df) - low (hd df)) else None)"
  proof -
    have 0: "0 < length df" using assms(1) by simp
    have "take (Suc 0) (true_range df) = [high (hd df) - low (hd df)]"
      using assms(1) by (cases df) (simp_all add: true_range_def)
    then show ?thesis using atr_nth [OF 0, of n] by auto
  qed
  ultimately show ?thesis using hd_true_range [OF assms(1)] by simp
qed

theorem atr_nonneg_first_bar_witness:
  "two_bars \<noteq> [] \<and> low (hd two_bars) \<le> high (hd two_bars) \<and> 1 < length two_bars \<and>
   atr two_bars 1 ! 1 = Some 2 \<and> hd (true_range two_bars) = 2 \<and> atr two_bars 1 ! 0 = Some 2"
proof -
  have h: "two_bars \<noteq> []" "low (hd two_bars) \<le> high (hd two_bars)" "1 < length two_bars"
    by (simp_all add: two_bars_def)
  have v: "atr two_bars 1 ! 1 = Some 2" "high (hd two_bars) - low (hd two_bars) = 2"
    by (simp_all add: two_bars_def atr_nth true_range_def)
  show ?thesis using h v atr_nonneg_first_bar [OF h, of 1] by simp
qed

text \<open>
  The claim as stated fails: with the default window 14 the ATR of the first bar is
  missing, while its high minus its low is 2.
\<close>

theorem atr_first_bar_counterexample:
  "atr two_bars 14 ! 0 = None \<and> high (two_bars ! 0) - low (two_bars ! 0) = 2"
  by (simp add: two_bars_def atr_nth)

subsection \<open>C9: liquidity gate\<close>

text \<open>
  Claim C9. On a frame with at least one row, the gate rejects when the last close is
  below the minimum price; otherwise, with a volume column, it passes exactly when the
  20-period rolling mean of close times volume at the last bar is there and reaches the
  minimum dollar volume; otherwise, without a volume column, it passes. That rolling mean
  is missing exactly when there are fewer than 20 rows.
\<close>

theorem liquidity_gate:
  assumes "rows df \<noteq> []"
  shows "(close (last (rows df)) < MIN_PRICE \<longrightarrow> liquidity_ok df = Inr False) \<and>
         (\<not> close (last (rows df)) < MIN_PRICE \<and> has_volume df \<longrightarrow>
            liquidity_ok df =
              Inr (case last (rolling_mean 20 (map (\<lambda>b. Some (close b * volume b)) (rows df))) of
                     None \<Rightarrow> False | Some dv20 \<Rightarrow> MIN_DOLLAR_VOL \<le> dv20)) \<and>
         (\<not> close (last (rows df)) < MIN_PRICE \<and> \<not> has_volume df \<longrightarrow> liquidity_ok df = Inr True) \<and>
         last (rolling_mean 20 (map (\<lambda>b. Some (close b * volume b)) (rows df))) =
           (if length (rows df) < 20 then None
            else Some (sum_list (map (\<lambda>b. close b * volume b) (drop (length (rows df) - 20) (rows df))) / 20))"
proof -
  define ys where "ys = map (\<lambda>b. close b * volume b) (rows df)"
  have e: "map (\<lambda>b. Some (close b * volume b)) (rows df) = map Some ys"
    by (simp add: ys_def)
  have "ys \<noteq> []" using assms by (simp add: ys_def)
  then have "last (rolling_mean 20 (map Some ys)) = window_mean 20 (map Some ys)"
    by (simp add: last_rolling_mean)
  also have "\<dots> = (if length ys < 20 then None else Some (sum_list (drop (length ys - 20) ys) / 20))"
    by (simp add: window_mean_Some)
  finally have "last (rolling_mean 20 (map (\<lambda>b. Some (close b * volume b)) (rows df))) =
           (if length (rows df) < 20 then None
            else Some (sum_list (map (\<lambda>b. close b * volume b) (drop (length (rows df) - 20) (rows df))) / 20))"
    unfolding e [symmetric] by (simp add: ys_def drop_map)
  then show ?thesis using assms
    by (auto simp: liquidity_ok_def split: option.splits)
qed

theorem liquidity_gate_witness:
  "rows frame_uptrend \<noteq> [] \<and> \<not> close (last (rows frame_uptrend)) < MIN_PRICE \<and>
   has_volume frame_uptrend \<and>
   last (rolling_mean 20 (map (\<lambda>b. Some (close b * volume b)) (rows frame_uptrend))) = Some 99050000 \<and>
   liquidity_ok frame_uptrend = Inr True"
proof -
  have h: "rows frame_uptrend \<noteq> []" by (rule frame_uptrend_rows)
  have c: "close (last (rows frame_uptrend)) = 100"
    using frame_uptrend_rows(1,3) by (simp add: last_map)
  have v: "has_volume frame_uptrend" by (simp add: frame_uptrend_def)
  have "map (\<lambda>b. close b * volume b) (rows frame_uptrend) =
          replicate 194 92000000 @
            [92000000, 113000000, 100000000, 100000000, 100000000, 100000000, 100000000,
             100000000, 100000000, 100000000, 100000000, 100000000, 100000000,
             100000000, 100000000, 100000000, 100000000]"
    by (simp add: frame_uptrend_def map_close_volume_dated)
  then have s: "sum_list (map (\<lambda>b. close b * volume b)
             (drop 191 (rows frame_uptrend))) = 1981000000"
    by (simp add: drop_map [symmetric] sum_list_replicate del: drop_map)
  show ?thesis
    using h v liquidity_gate [OF h] by (simp add: c s frame_uptrend_rows MIN_PRICE_def MIN_DOLLAR_VOL_def)
qed

subsection \<open>C10: market regime\<close>

text \<open>
  Claim C10. On a benchmark frame with at least one row, \<open>market_regime\<close> returns a
  regime whose score is a sum of four contributions of +1 or -1 each, hence one of -4,
  -2, 0, 2 and 4 and never odd; the bias is neutral exactly for the score 0, bullish
  from 2 on and bearish up to -2.
\<close>

theorem market_regime_score_even:
  assumes "rows df \<noteq> []"
  shows "\<exists>r. market_regime df = Inr r \<and>
           (\<exists>a b c d. {a, b, c, d} \<subseteq> {- 1, 1} \<and> regime_score r = a + b + c + d) \<and>
           regime_score r \<in> {- 4, - 2, 0, 2, 4} \<and>
           regime_score r \<notin> {- 3, - 1, 1, 3} \<and>
           (bias r = ''neutral'' \<longleftrightarrow> regime_score r = 0) \<and>
           (bias r = ''bullish'' \<longleftrightarrow> 2 \<le> regime_score r) \<and>
           (bias r = ''bearish'' \<longleftrightarrow> regime_score r \<le> - 2)"
proof -
  define c where "c = map close (rows df)"
  define a :: int where "a = (if gt_nan (last c) (last (sma c 200)) then 1 else - 1)"
  define b :: int where "b = (if last (ema c 20) > last (ema c 50) then 1 else - 1)"
  define r14 where "r14 = map (\<lambda>(ru, rd0). rsi_value ru rd0) (zip (avg_gain c 14) (avg_loss c 14))"
  define c' :: int where "c' = (if nan_ge (last r14) 50 then 1 else - 1)"
  define d :: int where "d = (if (if length c \<ge> 21 then roc_nonneg (float_div (last c) (c ! (length c - 21))) else True) then 1 else - 1)"
  have abcd: "a \<in> {- 1, 1}" "b \<in> {- 1, 1}" "c' \<in> {- 1, 1}" "d \<in> {- 1, 1}"
    by (simp_all add: a_def b_def c'_def d_def)
  obtain r where r: "market_regime df = Inr r" and score: "regime_score r = a + b + c' + d"
    and bias: "bias r = (if a + b + c' + d \<ge> 2 then ''bullish'' else if a + b + c' + d \<le> - 2 then ''bearish'' else ''neutral'')"
    using assms
    by (simp add: market_regime_def rsi_Inr Let_def c_def a_def b_def c'_def d_def r14_def)
  have "{a, b, c', d} \<subseteq> {- 1, 1}" using abcd by simp
  then have ex: "\<exists>a b c d. {a, b, c, d} \<subseteq> {- 1, 1} \<and> regime_score r = a + b + c + d"
    using score by blast
  have "a = - 1 \<or> a = 1" "b = - 1 \<or> b = 1" "c' = - 1 \<or> c' = 1" "d = - 1 \<or> d = 1"
    using abcd by simp_all
  then have vals: "a + b + c' + d \<in> {- 4, - 2, 0, 2, 4}"
    by (elim disjE) simp_all
  show ?thesis
    using r ex vals score bias by (intro exI [of _ r]) auto
qed

text \<open>Two rising bars make a neutral regime: two contributions of +1 and two of -1.\<close>

theorem market_regime_score_even_witness:
  "rows frame_two_bars \<noteq> [] \<and>
   market_regime frame_two_bars =
     Inr \<lparr>regime_score = 0, bias = ''neutral'', spy_close = 12, spy_sma200 = None,
          ema20_gt_ema50 = True, regime_rsi14 = None\<rparr>"
proof -
  have h: "rows frame_two_bars \<noteq> []" by (simp add: frame_two_bars_def two_bars_def)
  have e: "market_regime frame_two_bars =
     Inr \<lparr>regime_score = 0, bias = ''neutral'', spy_close = 12, spy_sma200 = None,
          ema20_gt_ema50 = True, regime_rsi14 = None\<rparr>"
    by (simp add: market_regime_def frame_two_bars_def two_bars_def rsi_def rsi_value_def
        avg_gain_def avg_loss_def gains_def losses_def diff_def sma_def rolling_mean_def
        window_mean_def ema_def round2_def round_half_even_def)
  show ?thesis using h e market_regime_score_even [OF h] by simp
qed

subsection \<open>C2: reward/risk ratio\<close>

text \<open>
  Claim C2, as amended. For a plan of the trend-pullback strategies, of the momentum
  fallback or of the weekly strategy, the reward/risk ratio is the two-decimal rounding of
  |target - entry| / max(|entry - stop|, 1e-6), taken on the levels from which
  \<open>plan_dict\<close> rounds the plan's entry, stop and target (for the momentum fallback these
  levels are themselves rounded already), and it is \<open>\<ge> 0\<close>. For a plan of a
  mean-reversion strategy the same holds whenever the 5-period SMA lies on the profit side
  of the last close (not below it for the long variant, not above it for the short one).
\<close>

theorem reward_risk_ratio_of_plan:
  "(strat_trend_pullback_long df = Inr (Some p) \<longrightarrow>
      (\<exists>a. last (atr (rows df) 14) = Some a \<and>
           built_from_levels p (high (last (rows df)) + 0.05) (high (last (rows df)) + 0.05 - a)
             (high (last (rows df)) + 0.05 + 1.8 * a)) \<and> 0 \<le> rr p) \<and>
   (strat_trend_pullback_short df = Inr (Some p) \<longrightarrow>
      (\<exists>a. last (atr (rows df) 14) = Some a \<and>
           built_from_levels p (low (last (rows df)) - 0.05) (low (last (rows df)) - 0.05 + a)
             (low (last (rows df)) - 0.05 - 1.8 * a)) \<and> 0 \<le> rr p) \<and>
   (momentum_info_plan df = Inr (Some p) \<longrightarrow>
      (\<exists>a. last (atr (rows df) 14) = Some a \<and>
           (direction p = ''bullish'' \<and>
              built_from_levels p (round2 (close (last (rows df))))
                (round2 (round2 (close (last (rows df))) - a))
                (round2 (round2 (close (last (rows df))) + 1.8 * a)) \<or>
            direction p = ''bearish'' \<and>
              built_from_levels p (round2 (close (last (rows df))))
                (round2 (round2 (close (last (rows df))) + a))
                (round2 (round2 (close (last (rows df))) - 1.8 * a)))) \<and> 0 \<le> rr p) \<and>
   (invest_trend_weekly_long df = Inr (Some p) \<longrightarrow>
      (\<exists>w a. resample_weekly df = Inr w \<and> last (atr w 14) = Some a \<and>
           built_from_levels p (close (last w)) (close (last w) - 2 * a) (close (last w) + 4 * a)) \<and>
      0 \<le> rr p) \<and>
   (strat_mean_reversion_long df = Inr (Some p) \<longrightarrow>
      (\<exists>a m. last (atr (rows df) 14) = Some a \<and> last (sma (map close (rows df)) 5) = Some m \<and>
           (close (last (rows df)) \<le> m \<longrightarrow>
              built_from_levels p (close (last (rows df))) (close (last (rows df)) - a) m \<and>
              0 \<le> rr p))) \<and>
   (strat_mean_reversion_short df = Inr (Some p) \<longrightarrow>
      (\<exists>a m. last (atr (rows df) 14) = Some a \<and> last (sma (map close (rows df)) 5) = Some m \<and>
           (m \<le> close (last (rows df)) \<longrightarrow>
              built_from_levels p (close (last (rows df))) (close (last (rows df)) + a) m \<and>
              0 \<le> rr p)))"
proof -
  have 1: "strat_trend_pullback_long df = Inr (Some p) \<longrightarrow>
      (\<exists>a. last (atr (rows df) 14) = Some a \<and>
           built_from_levels p (high (last (rows df)) + 0.05) (high (last (rows df)) + 0.05 - a)
             (high (last (rows df)) + 0.05 + 1.8 * a)) \<and> 0 \<le> rr p"
    using trend_pullback_long_rr [of df p] built_from_levels_rr_nonneg [of p] by blast
  have 2: "strat_trend_pullback_short df = Inr (Some p) \<longrightarrow>
      (\<exists>a. last (atr (rows df) 14) = Some a \<and>
           built_from_levels p (low (last (rows df)) - 0.05) (low (last (rows df)) - 0.05 + a)
             (low (last (rows df)) - 0.05 - 1.8 * a)) \<and> 0 \<le> rr p"
    using trend_pullback_short_rr [of df p] built_from_levels_rr_nonneg [of p] by blast
  have 3: "momentum_info_plan df = Inr (Some p) \<longrightarrow>
      (\<exists>a. last (atr (rows df) 14) = Some a \<and>
           (direction p = ''bullish'' \<and>
              built_from_levels p (round2 (close (last (rows df))))
                (round2 (round2 (close (last (rows df))) - a))
                (round2 (round2 (close (last (rows df))) + 1.8 * a)) \<or>
            direction p = ''bearish'' \<and>
              built_from_levels p (round2 (close (last (rows df))))
                (round2 (round2 (close (last (rows df))) + a))
                (round2 (round2 (close (last (rows df))) - 1.8 * a)))) \<and> 0 \<le> rr p"
    using momentum_rr [of df p] built_from_levels_rr_nonneg [of p] by blast
  have 4: "invest_trend_weekly_long df = Inr (Some p) \<longrightarrow>
      (\<exists>w a. resample_weekly df = Inr w \<and> last (atr w 14) = Some a \<and>
           built_from_levels p (close (last w)) (close (last w) - 2 * a) (close (last w) + 4 * a)) \<and>
      0 \<le> rr p"
    using weekly_rr [of df p] built_from_levels_rr_nonneg [of p] by blast
  have 5: "strat_mean_reversion_long df = Inr (Some p) \<longrightarrow>
      (\<exists>a m. last (atr (rows df) 14) = Some a \<and> last (sma (map close (rows df)) 5) = Some m \<and>
           (close (last (rows df)) \<le> m \<longrightarrow>
              built_from_levels p (close (last (rows df))) (close (last (rows df)) - a) m \<and>
              0 \<le> rr p))"
    using mean_reversion_long_rr [of df p] built_from_levels_rr_nonneg [of p] by blast
  have 6: "strat_mean_reversion_short df = Inr (Some p) \<longrightarrow>
      (\<exists>a m. last (atr (rows df) 14) = Some a \<and> last (sma (map close (rows df)) 5) = Some m \<and>
           (m \<le> close (last (rows df)) \<longrightarrow>
              built_from_levels p (close (last (rows df))) (close (last (rows df)) + a) m \<and>
              0 \<le> rr p))"
    using mean_reversion_short_rr [of df p] built_from_levels_rr_nonneg [of p] by blast
  show ?thesis by (intro conjI) (rule 1 2 3 4 5 6)+
qed

text \<open>
  On \<open>frame_uptrend\<close> the trend pullback has the levels 101.05, 99.05 and 104.65 and the
  momentum fallback 100, 98 and 103.6; on \<open>frame_dip\<close> the 5-period SMA, 76, lies above
  the last close, 70, and the ATR is 87/28.
\<close>

theorem reward_risk_ratio_of_plan_witness:
  "strat_trend_pullback_long frame_uptrend = Inr (Some plan_uptrend_pullback) \<and>
   built_from_levels plan_uptrend_pullback 101.05 99.05 104.65 \<and>
   0 \<le> rr plan_uptrend_pullback \<and>
   momentum_info_plan frame_uptrend = Inr (Some plan_uptrend_momentum) \<and>
   built_from_levels plan_uptrend_momentum 100 98 103.6 \<and>
   0 \<le> rr plan_uptrend_momentum \<and>
   strat_mean_reversion_long frame_dip = Inr (Some plan_dip_reversion) \<and>
   close (last (rows frame_dip)) \<le> 76 \<and>
   built_from_levels plan_dip_reversion 70 (70 - 87 / 28) 76 \<and>
   0 \<le> rr plan_dip_reversion"
proof -
  note up = reward_risk_ratio_of_plan [of frame_uptrend plan_uptrend_pullback]
  from up [THEN conjunct1, THEN mp, OF frame_uptrend_tpl]
  obtain a where "last (atr (rows frame_uptrend) 14) = Some a"
    and "built_from_levels plan_uptrend_pullback (high (last (rows frame_uptrend)) + 0.05)
           (high (last (rows frame_uptrend)) + 0.05 - a) (high (last (rows frame_uptrend)) + 0.05 + 1.8 * a)"
    and r1: "0 \<le> rr plan_uptrend_pullback"
    by blast
  then have b1: "built_from_levels plan_uptrend_pullback 101.05 99.05 104.65"
    by (simp add: frame_uptrend_rows frame_uptrend_atr14)
  note mo = reward_risk_ratio_of_plan [of frame_uptrend plan_uptrend_momentum]
  from mo [THEN conjunct2, THEN conjunct2, THEN conjunct1, THEN mp, OF frame_uptrend_mom]
  obtain a where "last (atr (rows frame_uptrend) 14) = Some a"
    and "direction plan_uptrend_momentum = ''bullish'' \<and>
           built_from_levels plan_uptrend_momentum (round2 (close (last (rows frame_uptrend))))
             (round2 (round2 (close (last (rows frame_uptrend))) - a))
             (round2 (round2 (close (last (rows frame_uptrend))) + 1.8 * a)) \<or>
         direction plan_uptrend_momentum = ''bearish'' \<and>
           built_from_levels plan_uptrend_momentum (round2 (close (last (rows frame_uptrend))))
             (round2 (round2 (close (last (rows frame_uptrend))) + a))
             (round2 (round2 (close (last (rows frame_uptrend))) - 1.8 * a))"
    and r2: "0 \<le> rr plan_uptrend_momentum"
    by blast
  moreover have c: "close (last (rows frame_uptrend)) = 100"
    using frame_uptrend_rows(1,3) by (simp add: last_map)
  ultimately have b2: "built_from_levels plan_uptrend_momentum 100 98 103.6"
    by (simp add: frame_uptrend_atr14 plan_uptrend_momentum_def round2_def round_half_even_def)
  have cd: "close (last (rows frame_dip)) = 70"
    using frame_dip_rows(1,3) by (simp add: last_map)
  note di = reward_risk_ratio_of_plan [of frame_dip plan_dip_reversion]
  from di [THEN conjunct2, THEN conjunct2, THEN conjunct2, THEN conjunct2, THEN conjunct1, THEN mp,
      OF frame_dip_mrl]
  obtain a m where a: "last (atr (rows frame_dip) 14) = Some a"
    and m: "last (sma (map close (rows frame_dip)) 5) = Some m"
    and i: "close (last (rows frame_dip)) \<le> m \<longrightarrow>
           built_from_levels plan_dip_reversion (close (last (rows frame_dip)))
             (close (last (rows frame_dip)) - a) m \<and> 0 \<le> rr plan_dip_reversion"
    by blast
  have "Some a = Some (87 / 28)" "Some m = Some 76"
    using a m frame_dip_atr14 frame_dip_sma5 by simp_all
  then have am: "a = 87 / 28" "m = 76" by blast+
  have b3: "built_from_levels plan_dip_reversion 70 (70 - 87 / 28) 76 \<and> 0 \<le> rr plan_dip_reversion"
    using i unfolding am cd by simp
  show ?thesis
    using b1 r1 b2 r2 b3 frame_uptrend_tpl frame_uptrend_mom frame_dip_mrl cd by simp
qed

text \<open>
  The claim as stated fails: on \<open>frame_oversold\<close> the long mean-reversion strategy admits
  with the 5-period SMA, 70.04, below the last close, 70.20, and the ratio of its plan is
  -0.05, which is negative and differs from the specified ratio of the plan's levels.
\<close>

theorem negative_reward_risk_counterexample:
  "strat_mean_reversion_long frame_oversold = Inr (Some plan_oversold_reversion) \<and>
   rr plan_oversold_reversion = - 0.05 \<and> rr plan_oversold_reversion < 0 \<and>
   rr plan_oversold_reversion \<noteq>
     spec_rr (entry plan_oversold_reversion) (stop plan_oversold_reversion)
       (target plan_oversold_reversion)"
  using frame_oversold_mrl by (simp add: plan_oversold_reversion_def spec_rr_def)

subsection \<open>C5: the trend-pullback example\<close>

text \<open>
  Claim C5, as amended. On a daily series with last close 100 above its 200-day SMA, with
  ema20 above ema50, rsi14 = 60 and atr14 = 2, \<open>strat_trend_pullback_long\<close> declines
  unless ema5 is above ema20; and when it is, with a last high of 101, the strategy returns
  the plan with entry 101.05, stop 99.05, target 104.65 (that is 101.05 + 1.8 * 2) and the
  reward/risk ratio 1.8.
\<close>

theorem trend_pullback_long_example:
  assumes "rows df \<noteq> []"
    and "close (last (rows df)) = 100"
    and "last (sma (map close (rows df)) 200) = Some sma200" and "sma200 < 100"
    and "last (ema (map close (rows df)) 50) < last (ema (map close (rows df)) 20)"
    and "rsi (map close (rows df)) 14 = Inr rsi14" and "last rsi14 = Some 60"
    and "last (atr (rows df) 14) = Some 2"
  shows "(\<not> last (ema (map close (rows df)) 20) < last (ema (map close (rows df)) 5) \<longrightarrow>
            strat_trend_pullback_long df = Inr None) \<and>
         (last (ema (map close (rows df)) 20) < last (ema (map close (rows df)) 5) \<and>
          high (last (rows df)) = 101 \<longrightarrow>
            strat_trend_pullback_long df = Inr (Some plan_uptrend_pullback) \<and>
            entry plan_uptrend_pullback = 101.05 \<and> stop plan_uptrend_pullback = 99.05 \<and>
            target plan_uptrend_pullback = 104.65 \<and> rr plan_uptrend_pullback = 1.8)"
proof -
  have c: "last (map close (rows df)) = 100"
    using assms(1,2) by (simp add: last_map)
  show ?thesis
    using assms c
    by (simp add: strat_trend_pullback_long_def config_values plan_dict_def quality_long_def
        round2_def round3_def round_half_even_def plan_uptrend_pullback_def)
qed

text \<open>\<open>frame_uptrend\<close> is such a series, with ema5 above ema20 and a last high of 101.\<close>

theorem trend_pullback_long_example_witness:
  "rows frame_uptrend \<noteq> [] \<and> close (last (rows frame_uptrend)) = 100 \<and>
   last (sma (map close (rows frame_uptrend)) 200) = Some (18541 / 200) \<and>
   (18541 / 200 :: real) < 100 \<and>
   last (ema (map close (rows frame_uptrend)) 50) < last (ema (map close (rows frame_uptrend)) 20) \<and>
   last (ema (map close (rows frame_uptrend)) 20) < last (ema (map close (rows frame_uptrend)) 5) \<and>
   last (atr (rows frame_uptrend) 14) = Some 2 \<and> high (last (rows frame_uptrend)) = 101 \<and>
   strat_trend_pullback_long frame_uptrend = Inr (Some plan_uptrend_pullback) \<and>
   entry plan_uptrend_pullback = 101.05 \<and> stop plan_uptrend_pullback = 99.05 \<and>
   target plan_uptrend_pullback = 104.65 \<and> rr plan_uptrend_pullback = 1.8"
proof -
  have c: "close (last (rows frame_uptrend)) = 100"
    using frame_uptrend_rows(1,3) by (simp add: last_map)
  have s: "(18541 / 200 :: real) < 100" by simp
  have e: "last (ema (map close (rows frame_uptrend)) 50) < last (ema (map close (rows frame_uptrend)) 20)"
    "last (ema (map close (rows frame_uptrend)) 20) < last (ema (map close (rows frame_uptrend)) 5)"
    by (simp_all add: frame_uptrend_ema5 frame_uptrend_ema20 frame_uptrend_ema50)
  have r: "rsi (map close (rows frame_uptrend)) 14 =
      Inr (map (\<lambda>(ru, rd0). rsi_value ru rd0)
        (zip (avg_gain (map close (rows frame_uptrend)) 14) (avg_loss (map close (rows frame_uptrend)) 14)))"
    by (simp add: rsi_Inr)
  note t = trend_pullback_long_example [OF frame_uptrend_rows(1) c frame_uptrend_sma200 s e(1) r
      frame_uptrend_rsi14 frame_uptrend_atr14]
  from t e(2) frame_uptrend_rows(4)
  have "strat_trend_pullback_long frame_uptrend = Inr (Some plan_uptrend_pullback) \<and>
        entry plan_uptrend_pullback = 101.05 \<and> stop plan_uptrend_pullback = 99.05 \<and>
        target plan_uptrend_pullback = 104.65 \<and> rr plan_uptrend_pullback = 1.8"
    by blast
  then show ?thesis
    using frame_uptrend_rows(1,4) c frame_uptrend_sma200 s e frame_uptrend_atr14 by simp
qed

text \<open>
  The claim as stated fails: on \<open>frame_uptrend\<close>, which meets every condition of the
  example, the target of the returned plan is 104.65, not 104.64.
\<close>

theorem trend_pullback_target_counterexample:
  "close (last (rows frame_uptrend)) = 100 \<and> high (last (rows frame_uptrend)) = 101 \<and>
   last (sma (map close (rows frame_uptrend)) 200) = Some (18541 / 200) \<and>
   last (ema (map close (rows frame_uptrend)) 50) < last (ema (map close (rows frame_uptrend)) 20) \<and>
   last (ema (map close (rows frame_uptrend)) 20) < last (ema (map close (rows frame_uptrend)) 5) \<and>
   last (map (\<lambda>(ru, rd0). rsi_value ru rd0)
     (zip (avg_gain (map close (rows frame_uptrend)) 14) (avg_loss (map close (rows frame_uptrend)) 14))) = Some 60 \<and>
   last (atr (rows frame_uptrend) 14) = Some 2 \<and>
   strat_trend_pullback_long frame_uptrend = Inr (Some plan_uptrend_pullback) \<and>
   target plan_uptrend_pullback = 104.65 \<and> target plan_uptrend_pullback \<noteq> 104.64"
proof -
  have c: "close (last (rows frame_uptrend)) = 100"
    using frame_uptrend_rows(1,3) by (simp add: last_map)
  show ?thesis
    using c frame_uptrend_rows(4) frame_uptrend_tpl frame_uptrend_rsi14 frame_uptrend_atr14
    by (simp add: frame_uptrend_ema5 frame_uptrend_ema20 frame_uptrend_ema50 frame_uptrend_sma200
        plan_uptrend_pullback_def)
qed

subsection \<open>C6: target of the mean-reversion strategies\<close>

text \<open>
  Claim C6, as amended. Whenever a mean-reversion strategy admits, the 5-period SMA of the
  close is available and the plan's target is its two-decimal rounding. The fallback
  target of entry plus or minus 1.8 times atr14 is never produced: with a missing 5-period
  SMA neither variant returns a plan.
\<close>

theorem mean_reversion_target_is_sma5:
  "(strat_mean_reversion_long df = Inr (Some p) \<longrightarrow>
      (\<exists>m. last (sma (map close (rows df)) 5) = Some m \<and> target p = round2 m)) \<and>
   (strat_mean_reversion_short df = Inr (Some p) \<longrightarrow>
      (\<exists>m. last (sma (map close (rows df)) 5) = Some m \<and> target p = round2 m)) \<and>
   (last (sma (map close (rows df)) 5) = None \<longrightarrow>
      strat_mean_reversion_long df \<noteq> Inr (Some p) \<and> strat_mean_reversion_short df \<noteq> Inr (Some p))"
proof -
  have 1: "strat_mean_reversion_long df = Inr (Some p) \<longrightarrow>
      (\<exists>m. last (sma (map close (rows df)) 5) = Some m \<and> target p = round2 m)"
    using mean_reversion_long_rr [of df p] by blast
  have 2: "strat_mean_reversion_short df = Inr (Some p) \<longrightarrow>
      (\<exists>m. last (sma (map close (rows df)) 5) = Some m \<and> target p = round2 m)"
    using mean_reversion_short_rr [of df p] by blast
  have 3: "last (sma (map close (rows df)) 5) = None \<longrightarrow>
      strat_mean_reversion_long df \<noteq> Inr (Some p) \<and> strat_mean_reversion_short df \<noteq> Inr (Some p)"
    using 1 2 by auto
  show ?thesis by (intro conjI) (rule 1 2 3)+
qed

text \<open>
  On \<open>frame_dip\<close> the long variant admits with the 5-period SMA 76 as its target, on
  \<open>frame_spike\<close> the short variant with 124.
\<close>

theorem mean_reversion_target_is_sma5_witness:
  "strat_mean_reversion_long frame_dip = Inr (Some plan_dip_reversion) \<and>
   last (sma (map close (rows frame_dip)) 5) = Some 76 \<and> target plan_dip_reversion = round2 76 \<and>
   strat_mean_reversion_short frame_spike = Inr (Some plan_spike_reversion) \<and>
   last (sma (map close (rows frame_spike)) 5) = Some 124 \<and> target plan_spike_reversion = round2 124"
proof -
  from mean_reversion_target_is_sma5 [of frame_dip plan_dip_reversion, THEN conjunct1, THEN mp,
      OF frame_dip_mrl]
  have a: "target plan_dip_reversion = round2 76" by (simp add: frame_dip_sma5)
  from mean_reversion_target_is_sma5 [of frame_spike plan_spike_reversion, THEN conjunct2,
      THEN conjunct1, THEN mp, OF frame_spike_mrs]
  have b: "target plan_spike_reversion = round2 124" by (simp add: frame_spike_sma5)
  show ?thesis using a b frame_dip_mrl frame_spike_mrs frame_dip_sma5 frame_spike_sma5 by simp
qed

text \<open>
  The claim as stated fails in its second half: no frame is admitted by a mean-reversion
  strategy while its 5-period SMA is missing, so the fallback branch is not reachable.
\<close>

theorem mean_reversion_fallback_counterexample:
  "\<not> (\<exists>df p. (strat_mean_reversion_long df = Inr (Some p) \<or>
                strat_mean_reversion_short df = Inr (Some p)) \<and>
               last (sma (map close (rows df)) 5) = None)"
  using mean_reversion_long_admitted mean_reversion_short_admitted by fastforce

subsection \<open>C8: weekly resampling\<close>

text \<open>
  Claim C8. Let a daily frame with a volume column hold a bar for each of the five days
  from a Monday \<open>m\<close> to the Friday \<open>m + 4\<close>. Then \<open>resample_weekly\<close> returns weekly bars
  of which exactly one lies in that calendar week (Saturday \<open>m - 2\<close> to Friday \<open>m + 4\<close>):
  it is labelled with the Friday, its open is the open of the first daily bar of the week,
  its high the maximum of the daily highs, its low the minimum of the daily lows, its close
  the close of the last daily bar and its volume the sum of the daily volumes.
\<close>

theorem resample_weekly_one_bar_per_week:
  assumes "has_volume df" and "m mod 7 = 4"
    and "\<forall>d\<in>{m, m + 1, m + 2, m + 3, m + 4}. \<exists>r\<in>set (rows df). date r = d"
  shows "\<exists>w. resample_weekly df = Inr w \<and>
           filter (\<lambda>b. m - 2 \<le> date b \<and> date b \<le> m + 4) w =
             [\<lparr>date = m + 4, open_price = open_price (hd (week_rows m (rows df))),
               high = Max (set (map high (week_rows m (rows df)))),
               low = Min (set (map low (week_rows m (rows df)))),
               close = close (last (week_rows m (rows df))),
               volume = sum_list (map volume (week_rows m (rows df)))\<rparr>]"
proof -
  from assms(3) obtain r where "r \<in> set (rows df)" "date r = m" by auto
  with assms(1,2) show ?thesis by (rule resample_weekly_week)
qed

text \<open>
  \<open>frame_one_week\<close> has the bars of Monday 19002 to Saturday 19007: the five weekdays
  make the weekly bar of Friday 19006 and the Saturday the bar of the next week.
\<close>

theorem resample_weekly_one_bar_per_week_witness:
  "has_volume frame_one_week \<and> (19002::int) mod 7 = 4 \<and>
   map date (rows frame_one_week) = [19002, 19003, 19004, 19005, 19006, 19007] \<and>
   resample_weekly frame_one_week =
     Inr [\<lparr>date = 19006, open_price = 10, high = 13, low = 8, close = 9.5, volume = 1500\<rparr>,
          \<lparr>date = 19013, open_price = 9.5, high = 10, low = 9, close = 10, volume = 600\<rparr>] \<and>
   filter (\<lambda>b. 19002 - 2 \<le> date b \<and> date b \<le> 19002 + 4)
     [\<lparr>date = 19006, open_price = 10, high = 13, low = 8, close = 9.5, volume = 1500\<rparr>,
      \<lparr>date = 19013, open_price = 9.5, high = 10, low = 9, close = 10, volume = 600\<rparr>] =
     [\<lparr>date = 19006, open_price = 10, high = 13, low = 8, close = 9.5, volume = 1500\<rparr>]"
proof -
  have v: "has_volume frame_one_week" by (simp add: frame_one_week_def)
  have m: "(19002::int) mod 7 = 4" by simp
  have d: "map date (rows frame_one_week) = [19002, 19003, 19004, 19005, 19006, 19007]"
    by (simp add: frame_one_week_def dated_def)
  have "x \<in> set (map date (rows frame_one_week)) \<Longrightarrow> \<exists>r\<in>set (rows frame_one_week). date r = x" for x
    by auto
  then have h: "\<forall>d\<in>{19002, 19002 + 1, 19002 + 2, 19002 + 3, 19002 + 4}.
      \<exists>r\<in>set (rows frame_one_week). date r = d"
    unfolding d by simp
  have e: "resample_weekly frame_one_week =
     Inr [\<lparr>date = 19006, open_price = 10, high = 13, low = 8, close = 9.5, volume = 1500\<rparr>,
          \<lparr>date = 19013, open_price = 9.5, high = 10, low = 9, close = 10, volume = 600\<rparr>]"
    by code_simp
  show ?thesis
    using resample_weekly_one_bar_per_week [OF v m h] v d e by simp
qed

end
